theory Spec2Isabelle
  imports Complex_Main
begin

section \<open>JavaScript values and the runtime functions the adapters call\<close>

text \<open>
  The adapters handle loosely typed data: function calls, function responses and tool
  arguments are plain JavaScript objects that are read by property access and written out
  with \<^verbatim>\<open>JSON.stringify\<close>. They are modelled as JSON values. An object is the list of its
  own properties in enumeration order. A number is kept as the text that
  \<^verbatim>\<open>JSON.stringify\<close> prints for it, since no adapter computes with one; the text of
  zero, of either sign, is \<^verbatim>\<open>0\<close>. Strings are lists of 8-bit characters.
\<close>

datatype json =
    JNull
  | JBool bool
  | JNum string
  | JStr string
  | JArr "json list"
  | JObj "(string \<times> json) list"

text \<open>Property access \<^verbatim>\<open>v.k\<close> on a value that is neither null nor undefined.\<close>

fun get_prop :: "json \<Rightarrow> string \<Rightarrow> json option" where
  "get_prop (JObj kvs) k = map_of kvs k"
| "get_prop _ k = None"

text \<open>
  JavaScript truthiness, for a JSON value and for an optional (possibly undefined) one.
  A number is falsy when it is zero.
\<close>

fun js_truthy :: "json \<Rightarrow> bool" where
  "js_truthy JNull = False"
| "js_truthy (JBool b) = b"
| "js_truthy (JNum n) = (n \<noteq> ''0'')"
| "js_truthy (JStr s) = (s \<noteq> [])"
| "js_truthy (JArr xs) = True"
| "js_truthy (JObj kvs) = True"

fun truthy :: "json option \<Rightarrow> bool" where
  "truthy None = False"
| "truthy (Some v) = js_truthy v"

fun truthy_str :: "string option \<Rightarrow> bool" where
  "truthy_str None = False"
| "truthy_str (Some s) = (s \<noteq> [])"

text \<open>\<^verbatim>\<open>s || ''\<close> for an optional string and \<^verbatim>\<open>v || {}\<close> for an optional value.\<close>

fun str_or_empty :: "string option \<Rightarrow> string" where
  "str_or_empty None = []"
| "str_or_empty (Some s) = s"

definition or_empty_object :: "json option \<Rightarrow> json" where
  "or_empty_object v = (if truthy v then the v else JObj [])"

text \<open>An object literal: a property whose value is undefined is not written out.\<close>

fun object_literal :: "(string \<times> json option) list \<Rightarrow> (string \<times> json) list" where
  "object_literal [] = []"
| "object_literal ((k, None) # kvs) = object_literal kvs"
| "object_literal ((k, Some v) # kvs) = (k, v) # object_literal kvs"

subsection \<open>String methods\<close>

definition js_is_space :: "char \<Rightarrow> bool" where
  "js_is_space c =
     (c = CHR 0x09 \<or> c = CHR 0x0A \<or> c = CHR 0x0B \<or> c = CHR 0x0C \<or> c = CHR 0x0D
      \<or> c = CHR 0x20 \<or> c = CHR 0xA0)"

definition trim :: "string \<Rightarrow> string" where
  "trim s = rev (dropWhile js_is_space (rev (dropWhile js_is_space s)))"

definition startsWith :: "string \<Rightarrow> string \<Rightarrow> bool" where
  "startsWith s p = (take (length p) s = p)"

fun js_includes :: "string \<Rightarrow> string \<Rightarrow> bool" where
  "js_includes [] sub = (sub = [])"
| "js_includes (c # cs) sub = (startsWith (c # cs) sub \<or> js_includes cs sub)"

fun join :: "string \<Rightarrow> string list \<Rightarrow> string" where
  "join sep [] = []"
| "join sep [x] = x"
| "join sep (x # y # ys) = x @ sep @ join sep (y # ys)"

subsection \<open>JSON.stringify\<close>

definition hex_digit :: "nat \<Rightarrow> char" where
  "hex_digit n = ''0123456789abcdef'' ! (n mod 16)"

definition escape_char :: "char \<Rightarrow> string" where
  "escape_char c =
     (if c = CHR 0x22 then [CHR 0x5C, CHR 0x22]
      else if c = CHR 0x5C then [CHR 0x5C, CHR 0x5C]
      else if c = CHR 0x08 then [CHR 0x5C, CHR ''b'']
      else if c = CHR 0x0C then [CHR 0x5C, CHR ''f'']
      else if c = CHR 0x0A then [CHR 0x5C, CHR ''n'']
      else if c = CHR 0x0D then [CHR 0x5C, CHR ''r'']
      else if c = CHR 0x09 then [CHR 0x5C, CHR ''t'']
      else if (of_char c :: nat) < 32
        then [CHR 0x5C, CHR ''u'', CHR ''0'', CHR ''0'',
              hex_digit ((of_char c :: nat) div 16), hex_digit (of_char c :: nat)]
      else [c])"

definition quote :: "string \<Rightarrow> string" where
  "quote s = [CHR 0x22] @ concat (map escape_char s) @ [CHR 0x22]"

fun JSON_stringify :: "json \<Rightarrow> string" where
  "JSON_stringify JNull = ''null''"
| "JSON_stringify (JBool b) = (if b then ''true'' else ''false'')"
| "JSON_stringify (JNum n) = n"
| "JSON_stringify (JStr s) = quote s"
| "JSON_stringify (JArr xs) = ''['' @ join '','' (map JSON_stringify xs) @ '']''"
| "JSON_stringify (JObj kvs) =
     ''{'' @ join '','' (map (\<lambda>(k, v). quote k @ '':'' @ JSON_stringify v) kvs) @ ''}''"

subsection \<open>JSON.parse\<close>

text \<open>
  \<^verbatim>\<open>JSON.parse\<close> belongs to the JavaScript runtime. The functions that call it take it
  as their first argument \<open>parse\<close>: \<open>parse s\<close> is the value that the runtime gives for
  the text \<open>s\<close>, or \<open>None\<close> when it throws a SyntaxError.
\<close>

type_synonym json_parser = "string \<Rightarrow> json option"

section \<open>The unified request and response\<close>

text \<open>
  The request and response types of the GenAI SDK, as far as the adapters read and build
  them. Every field the adapters test for presence is optional. An entry of
  \<^verbatim>\<open>contents\<close> that is a bare string or a bare part has no \<^verbatim>\<open>parts\<close> property and is
  a content whose \<open>c_parts\<close> is \<open>None\<close>.
\<close>

record part =
  p_text :: "string option"
  p_functionCall :: "json option"
  p_functionResponse :: "json option"

record content =
  c_role :: "string option"
  c_parts :: "part list option"

datatype contentListUnion =
    ContentString string
  | ContentOne content
  | ContentArray "content list"

datatype contentUnion =
    InstructionString string
  | InstructionContent "part list option"

record functionDeclaration =
  fd_name :: string
  fd_description :: "string option"
  fd_parameters :: "json option"

record tool =
  t_functionDeclarations :: "functionDeclaration list option"

record generateContentConfig =
  cfg_systemInstruction :: "contentUnion option"
  cfg_tools :: "tool list option"
  cfg_temperature :: "real option"

record request =
  r_model :: string
  r_contents :: "contentListUnion option"
  r_config :: "generateContentConfig option"

record response =
  g_parts :: "part list"
  g_finishReason :: "string option"
  g_promptTokenCount :: nat
  g_candidatesTokenCount :: nat
  g_totalTokenCount :: nat
  g_text :: "string option"
  g_functionCalls :: "json list option"

definition text_part :: "string \<Rightarrow> part" where
  "text_part s = \<lparr>p_text = Some s, p_functionCall = None, p_functionResponse = None\<rparr>"

definition functionCall_part :: "json \<Rightarrow> part" where
  "functionCall_part fc = \<lparr>p_text = None, p_functionCall = Some fc, p_functionResponse = None\<rparr>"

definition functionResponse_part :: "json \<Rightarrow> part" where
  "functionResponse_part fr = \<lparr>p_text = None, p_functionCall = None, p_functionResponse = Some fr\<rparr>"

text \<open>\<^verbatim>\<open>Array.isArray(request.contents) ? request.contents : [request.contents]\<close>, under
  the guard \<^verbatim>\<open>if (request.contents)\<close>, which an absent value and the empty string fail.\<close>

definition contentsArr :: "request \<Rightarrow> content list" where
  "contentsArr req =
     (case r_contents req of
        None \<Rightarrow> []
      | Some (ContentString s) \<Rightarrow> (if s = [] then [] else [\<lparr>c_role = None, c_parts = None\<rparr>])
      | Some (ContentOne c) \<Rightarrow> [c]
      | Some (ContentArray cs) \<Rightarrow> cs)"

text \<open>\<^verbatim>\<open>c.parts?.filter(f) || []\<close>\<close>

definition filter_parts :: "(part \<Rightarrow> bool) \<Rightarrow> content \<Rightarrow> part list" where
  "filter_parts f c = (case c_parts c of None \<Rightarrow> [] | Some ps \<Rightarrow> filter f ps)"

definition functionResponseParts :: "content \<Rightarrow> part list" where
  "functionResponseParts c = filter_parts (\<lambda>p. truthy (p_functionResponse p)) c"

definition textParts :: "content \<Rightarrow> part list" where
  "textParts c = filter_parts (\<lambda>p. truthy_str (p_text p)) c"

definition functionCallParts :: "content \<Rightarrow> part list" where
  "functionCallParts c = filter_parts (\<lambda>p. truthy (p_functionCall p)) c"

text \<open>The property \<open>k\<close> of an optional object, \<^verbatim>\<open>o?.k\<close>.\<close>

definition prop_of :: "json option \<Rightarrow> string \<Rightarrow> json option" where
  "prop_of v k = (case v of None \<Rightarrow> None | Some j \<Rightarrow> get_prop j k)"

text \<open>The separator of \<^verbatim>\<open>.join('\\n')\<close>: a backslash and the letter n.\<close>

definition instruction_separator :: string where
  "instruction_separator = [CHR 0x5C, CHR ''n'']"

definition instruction_text :: "contentUnion \<Rightarrow> string" where
  "instruction_text si =
     (case si of
        InstructionString s \<Rightarrow> s
      | InstructionContent None \<Rightarrow> []
      | InstructionContent (Some ps) \<Rightarrow>
          join instruction_separator (map (\<lambda>p. str_or_empty (p_text p)) ps))"

text \<open>\<^verbatim>\<open>request.config?.systemInstruction\<close>, when it is truthy.\<close>

definition request_systemInstruction :: "request \<Rightarrow> contentUnion option" where
  "request_systemInstruction req =
     (case r_config req of
        None \<Rightarrow> None
      | Some cfg \<Rightarrow>
          (case cfg_systemInstruction cfg of
             None \<Rightarrow> None
           | Some (InstructionString s) \<Rightarrow> (if s = [] then None else Some (InstructionString s))
           | Some (InstructionContent ps) \<Rightarrow> Some (InstructionContent ps)))"

definition request_tools :: "request \<Rightarrow> tool list" where
  "request_tools req =
     (case r_config req of
        None \<Rightarrow> []
      | Some cfg \<Rightarrow> (case cfg_tools cfg of None \<Rightarrow> [] | Some ts \<Rightarrow> ts))"

definition request_temperature :: "request \<Rightarrow> real option" where
  "request_temperature req =
     (case r_config req of None \<Rightarrow> None | Some cfg \<Rightarrow> cfg_temperature cfg)"

text \<open>The function declarations of all tools of a request, in order.\<close>

definition tool_declarations :: "tool \<Rightarrow> functionDeclaration list" where
  "tool_declarations t = (case t_functionDeclarations t of None \<Rightarrow> [] | Some fds \<Rightarrow> fds)"

definition request_declarations :: "request \<Rightarrow> functionDeclaration list" where
  "request_declarations req = concat (map tool_declarations (request_tools req))"

definition default_parameters :: json where
  "default_parameters = JObj [(''type'', JStr ''object''), (''properties'', JObj [])]"

section \<open>The Ollama adapter\<close>

record toolCall =
  tc_name :: "json option"
  tc_arguments :: json

record message =
  m_role :: string
  m_content :: string
  m_tool_calls :: "toolCall list option"

record ollamaTool =
  ot_name :: string
  ot_description :: string
  ot_parameters :: json

record ollamaOptions =
  opt_temperature :: "real option"

record ollamaParams =
  op_messages :: "message list"
  op_tools :: "ollamaTool list option"
  op_options :: ollamaOptions

record chatRequest =
  cq_model :: string
  cq_messages :: "message list"
  cq_tools :: "ollamaTool list option"
  cq_options :: ollamaOptions
  cq_stream :: bool

record chatResponse =
  cr_message :: "message option"
  cr_prompt_eval_count :: "nat option"
  cr_eval_count :: "nat option"
  cr_done :: bool

record ollamaContentGenerator =
  og_model :: string
  toolsSupported :: bool

definition isToolsNotSupportedError :: "string \<Rightarrow> bool" where
  "isToolsNotSupportedError msg = js_includes msg ''does not support tools''"

text \<open>The constructor removes the prefix \<^verbatim>\<open>ollama/\<close> from the model name.\<close>

definition new_OllamaContentGenerator :: "string \<Rightarrow> ollamaContentGenerator" where
  "new_OllamaContentGenerator m =
     \<lparr>og_model = (if startsWith m ''ollama/'' then drop 7 m else m), toolsSupported = True\<rparr>"

subsection \<open>mapGeminiParamsToOllama\<close>

definition ollama_system_messages :: "request \<Rightarrow> message list" where
  "ollama_system_messages req =
     (case request_systemInstruction req of
        None \<Rightarrow> []
      | Some si \<Rightarrow>
          (if instruction_text si = [] then []
           else [\<lparr>m_role = ''system'', m_content = instruction_text si, m_tool_calls = None\<rparr>]))"

definition ollama_tool :: "functionDeclaration \<Rightarrow> ollamaTool" where
  "ollama_tool fd =
     \<lparr>ot_name = fd_name fd,
      ot_description = str_or_empty (fd_description fd),
      ot_parameters = (if truthy (fd_parameters fd) then the (fd_parameters fd)
                       else default_parameters)\<rparr>"

definition ollamaTools :: "bool \<Rightarrow> request \<Rightarrow> ollamaTool list option" where
  "ollamaTools supported req =
     (if supported \<and> request_tools req \<noteq> []
      then Some (map ollama_tool (request_declarations req))
      else None)"

definition tool_message :: "part \<Rightarrow> message" where
  "tool_message p =
     \<lparr>m_role = ''tool'',
      m_content = JSON_stringify (or_empty_object (prop_of (p_functionResponse p) ''response'')),
      m_tool_calls = None\<rparr>"

definition ollama_tool_call :: "part \<Rightarrow> toolCall" where
  "ollama_tool_call p =
     \<lparr>tc_name = prop_of (p_functionCall p) ''name'',
      tc_arguments = or_empty_object (prop_of (p_functionCall p) ''args'')\<rparr>"

definition ollama_turn :: "bool \<Rightarrow> content \<Rightarrow> message list" where
  "ollama_turn supported c =
     (let text = concat (map (\<lambda>p. str_or_empty (p_text p)) (textParts c));
          tool_calls = (if supported then map ollama_tool_call (functionCallParts c) else [])
      in if text \<noteq> [] \<or> tool_calls \<noteq> []
         then [\<lparr>m_role = (if c_role c = Some ''model'' then ''assistant'' else ''user''),
                m_content = text,
                m_tool_calls = (if tool_calls \<noteq> [] then Some tool_calls else None)\<rparr>]
         else [])"

text \<open>One pass of the loop over the contents: the messages it pushes for one content.\<close>

definition ollama_content_messages :: "bool \<Rightarrow> content \<Rightarrow> message list" where
  "ollama_content_messages supported c =
     (if functionResponseParts c \<noteq> [] then
        (if \<not> supported then []
         else map tool_message (functionResponseParts c)
              @ (if textParts c \<noteq> [] \<or> functionCallParts c \<noteq> []
                 then ollama_turn supported c else []))
      else ollama_turn supported c)"

definition mapGeminiParamsToOllama :: "bool \<Rightarrow> request \<Rightarrow> ollamaParams" where
  "mapGeminiParamsToOllama supported req =
     \<lparr>op_messages = ollama_system_messages req
                     @ concat (map (ollama_content_messages supported) (contentsArr req)),
      op_tools = (case ollamaTools supported req of
                    None \<Rightarrow> None
                  | Some ts \<Rightarrow> (if ts = [] then None else Some ts)),
      op_options = \<lparr>opt_temperature = request_temperature req\<rparr>\<rparr>"

subsection \<open>generateContent\<close>

text \<open>
  The backend is outside the adapter. An operation is given the answers of the backend:
  \<open>chat i q\<close> is what the \<open>i\<close>-th call of the operation gets for the payload \<open>q\<close>, an
  error message (\<open>Inl\<close>) or a response. The result of an operation records what it
  returns or throws, the adapter after it, and the payloads it sent, in order.
\<close>

record 'a outcome =
  out_result :: "string + 'a"
  out_state :: ollamaContentGenerator
  out_sent :: "chatRequest list"

definition functionCall_of :: "toolCall \<Rightarrow> json" where
  "functionCall_of tc =
     JObj (object_literal [(''name'', tc_name tc), (''args'', Some (tc_arguments tc))])"

definition response_parts :: "chatResponse \<Rightarrow> part list" where
  "response_parts r =
     (case cr_message r of
        None \<Rightarrow> []
      | Some m \<Rightarrow>
          (if m_content m \<noteq> [] then [text_part (m_content m)] else [])
          @ (case m_tool_calls m of
               None \<Rightarrow> []
             | Some tcs \<Rightarrow> map (\<lambda>tc. functionCall_part (functionCall_of tc)) tcs))"

text \<open>\<^verbatim>\<open>n || 0\<close> for an optional count.\<close>

fun count_or_zero :: "nat option \<Rightarrow> nat" where
  "count_or_zero None = 0"
| "count_or_zero (Some n) = n"

definition ollama_response :: "chatResponse \<Rightarrow> response" where
  "ollama_response r =
     \<lparr>g_parts = response_parts r,
      g_finishReason = None,
      g_promptTokenCount = count_or_zero (cr_prompt_eval_count r),
      g_candidatesTokenCount = count_or_zero (cr_eval_count r),
      g_totalTokenCount = count_or_zero (cr_prompt_eval_count r) + count_or_zero (cr_eval_count r),
      g_text = None,
      g_functionCalls = None\<rparr>"

definition chat_request :: "ollamaContentGenerator \<Rightarrow> message list \<Rightarrow> ollamaTool list option
    \<Rightarrow> ollamaOptions \<Rightarrow> bool \<Rightarrow> chatRequest" where
  "chat_request g msgs ts opts strm =
     \<lparr>cq_model = og_model g, cq_messages = msgs, cq_tools = ts, cq_options = opts,
      cq_stream = strm\<rparr>"

definition generateContent_failed :: "string \<Rightarrow> string" where
  "generateContent_failed e = ''Ollama generateContent failed: '' @ e"

definition generateContent :: "ollamaContentGenerator \<Rightarrow> (nat \<Rightarrow> chatRequest \<Rightarrow> string + chatResponse)
    \<Rightarrow> request \<Rightarrow> response outcome" where
  "generateContent g chat req =
     (let mapped = mapGeminiParamsToOllama (toolsSupported g) req;
          q1 = chat_request g (op_messages mapped) (op_tools mapped) (op_options mapped) False
      in case chat 0 q1 of
           Inr r \<Rightarrow> \<lparr>out_result = Inr (ollama_response r), out_state = g, out_sent = [q1]\<rparr>
         | Inl e \<Rightarrow>
             if isToolsNotSupportedError e \<and> toolsSupported g then
               (let g' = g\<lparr>toolsSupported := False\<rparr>;
                    q2 = chat_request g (op_messages mapped) None (op_options mapped) False
                in case chat 1 q2 of
                     Inr r \<Rightarrow>
                       \<lparr>out_result = Inr (ollama_response r), out_state = g', out_sent = [q1, q2]\<rparr>
                   | Inl e2 \<Rightarrow>
                       \<lparr>out_result = Inl (generateContent_failed e2), out_state = g',
                        out_sent = [q1, q2]\<rparr>)
             else \<lparr>out_result = Inl (generateContent_failed e), out_state = g, out_sent = [q1]\<rparr>)"


subsection \<open>generateContentStream\<close>

text \<open>
  The variables of the generator that live across the chunks of the backend's stream.
\<close>

record streamState =
  ss_promptTokenCount :: nat
  ss_candidatesTokenCount :: nat
  ss_totalTokenCount :: nat
  ss_accumulatedText :: string
  ss_isPotentiallyJson :: bool

definition initial_streamState :: streamState where
  "initial_streamState =
     \<lparr>ss_promptTokenCount = 0, ss_candidatesTokenCount = 0, ss_totalTokenCount = 0,
      ss_accumulatedText = [], ss_isPotentiallyJson = False\<rparr>"

text \<open>\<^verbatim>\<open>chunk.message?.content\<close>, the empty string when there is none.\<close>

definition chunk_content :: "chatResponse \<Rightarrow> string" where
  "chunk_content chunk = (case cr_message chunk of None \<Rightarrow> [] | Some m \<Rightarrow> m_content m)"

definition chunk_tool_calls :: "chatResponse \<Rightarrow> toolCall list option" where
  "chunk_tool_calls chunk = (case cr_message chunk of None \<Rightarrow> None | Some m \<Rightarrow> m_tool_calls m)"

text \<open>The test made on the accumulator after a fragment has been appended.\<close>

definition looks_like_json :: "string \<Rightarrow> bool" where
  \<open>looks_like_json acc = (startsWith (trim acc) ''{'' \<and> js_includes acc ''"name"'')\<close>

text \<open>The first part of the loop body: append the fragment, classify, flush or withhold.\<close>

definition accumulate :: "streamState \<Rightarrow> chatResponse \<Rightarrow> streamState \<times> part list" where
  "accumulate s chunk =
     (if chunk_content chunk = [] then (s, [])
      else
        (let acc = ss_accumulatedText s @ chunk_content chunk;
             isJson = (ss_isPotentiallyJson s \<or> looks_like_json acc)
         in if isJson
            then (s\<lparr>ss_accumulatedText := acc, ss_isPotentiallyJson := True\<rparr>, [])
            else (s\<lparr>ss_accumulatedText := []\<rparr>, [text_part acc])))"

definition tool_call_parts :: "chatResponse \<Rightarrow> part list" where
  "tool_call_parts chunk =
     (case chunk_tool_calls chunk of
        None \<Rightarrow> []
      | Some tcs \<Rightarrow> map (\<lambda>tc. functionCall_part (functionCall_of tc)) tcs)"

text \<open>A count is taken from a chunk when it is truthy, that is, present and not zero.\<close>

definition count_update :: "nat option \<Rightarrow> nat \<Rightarrow> nat" where
  "count_update reported old = (if count_or_zero reported \<noteq> 0 then count_or_zero reported else old)"

definition update_usage :: "streamState \<Rightarrow> chatResponse \<Rightarrow> streamState" where
  "update_usage s chunk =
     (let p = count_update (cr_prompt_eval_count chunk) (ss_promptTokenCount s);
          c = count_update (cr_eval_count chunk) (ss_candidatesTokenCount s)
      in s\<lparr>ss_promptTokenCount := p,
            ss_candidatesTokenCount := c,
            ss_totalTokenCount :=
              (if count_or_zero (cr_prompt_eval_count chunk) \<noteq> 0
                  \<or> count_or_zero (cr_eval_count chunk) \<noteq> 0
               then p + c else ss_totalTokenCount s)\<rparr>)"

text \<open>
  The buffered text at the final chunk: the value \<^verbatim>\<open>JSON.parse\<close> gives for it when that
  value has a truthy \<^verbatim>\<open>name\<close> and a truthy \<^verbatim>\<open>arguments\<close>. A failed parse and the
  TypeError of reading a property of \<^verbatim>\<open>null\<close> are both caught by the source and leave
  the text in place.
\<close>

definition rescue :: "json_parser \<Rightarrow> string \<Rightarrow> json option" where
  "rescue parse acc =
     (case parse (trim acc) of
        None \<Rightarrow> None
      | Some parsed \<Rightarrow>
          (if truthy (get_prop parsed ''name'') \<and> truthy (get_prop parsed ''arguments'')
           then Some (JObj [(''name'', the (get_prop parsed ''name'')),
                            (''args'', the (get_prop parsed ''arguments''))])
           else None))"

text \<open>
  The block run at the final chunk when text was withheld. It gives the state, the parts
  it pushes, and the rescued call, if any.
\<close>

definition finish_buffer :: "json_parser \<Rightarrow> streamState \<Rightarrow> chatResponse
    \<Rightarrow> streamState \<times> part list \<times> json option" where
  "finish_buffer parse s chunk =
     (if cr_done chunk \<and> ss_isPotentiallyJson s \<and> trim (ss_accumulatedText s) \<noteq> [] then
        (case rescue parse (ss_accumulatedText s) of
           Some fc \<Rightarrow> (s\<lparr>ss_accumulatedText := []\<rparr>, [functionCall_part fc], Some fc)
         | None \<Rightarrow> (s\<lparr>ss_accumulatedText := []\<rparr>, [text_part (ss_accumulatedText s)], None))
      else (s, [], None))"

text \<open>
  \<^verbatim>\<open>chunkFunctionCalls\<close>: the tool calls of the chunk, when it has any; a rescued call is
  pushed onto that array, and onto a discarded empty array when the chunk has none.
\<close>

definition chunkFunctionCalls :: "chatResponse \<Rightarrow> json option \<Rightarrow> json list option" where
  "chunkFunctionCalls chunk rescued =
     (case chunk_tool_calls chunk of
        None \<Rightarrow> None
      | Some tcs \<Rightarrow>
          Some (map functionCall_of tcs @ (case rescued of None \<Rightarrow> [] | Some fc \<Rightarrow> [fc])))"

text \<open>\<^verbatim>\<open>parts.find((p) => p.text)?.text || undefined\<close>\<close>

definition first_text :: "part list \<Rightarrow> string option" where
  "first_text ps =
     (case filter (\<lambda>p. truthy_str (p_text p)) ps of [] \<Rightarrow> None | p # _ \<Rightarrow> p_text p)"

text \<open>One round of the loop: the state after the chunk and the response it yields, if any.\<close>

definition stream_step :: "json_parser \<Rightarrow> streamState \<Rightarrow> chatResponse
    \<Rightarrow> streamState \<times> response option" where
  "stream_step parse s chunk =
     (let (s1, parts1) = accumulate s chunk;
          s2 = update_usage s1 chunk;
          (s3, parts3, rescued) = finish_buffer parse s2 chunk;
          parts = parts1 @ tool_call_parts chunk @ parts3
      in (s3,
          if parts \<noteq> [] \<or> cr_done chunk then
            Some \<lparr>g_parts = parts,
                  g_finishReason = (if cr_done chunk then Some ''STOP'' else None),
                  g_promptTokenCount = ss_promptTokenCount s3,
                  g_candidatesTokenCount = ss_candidatesTokenCount s3,
                  g_totalTokenCount = ss_totalTokenCount s3,
                  g_text = first_text parts,
                  g_functionCalls = chunkFunctionCalls chunk rescued\<rparr>
          else None))"

fun stream_loop :: "json_parser \<Rightarrow> streamState \<Rightarrow> chatResponse list \<Rightarrow> response list" where
  "stream_loop parse s [] = []"
| "stream_loop parse s (chunk # chunks) =
     (case stream_step parse s chunk of
        (s', None) \<Rightarrow> stream_loop parse s' chunks
      | (s', Some r) \<Rightarrow> r # stream_loop parse s' chunks)"

text \<open>
  The stream of the backend: its chunks, and the error that ends it if it breaks off. The
  generator is modelled as fully consumed: the result lists the responses it yields and the
  error it throws after them, if any. The request is mapped when the method is called and
  the backend is called at the first pull; here the two happen together.
\<close>

type_synonym chatStream = "chatResponse list \<times> string option"

record streamed =
  st_yielded :: "response list"
  st_error :: "string option"
  st_state :: ollamaContentGenerator
  st_sent :: "chatRequest list"

definition generateContentStream_failed :: "string \<Rightarrow> string" where
  "generateContentStream_failed e = ''Ollama generateContentStream failed: '' @ e"

definition consume :: "json_parser \<Rightarrow> ollamaContentGenerator \<Rightarrow> chatRequest list \<Rightarrow> chatStream
    \<Rightarrow> streamed" where
  "consume parse g sent strm =
     \<lparr>st_yielded = stream_loop parse initial_streamState (fst strm),
      st_error = map_option generateContentStream_failed (snd strm),
      st_state = g,
      st_sent = sent\<rparr>"

definition generateContentStream :: "json_parser \<Rightarrow> ollamaContentGenerator
    \<Rightarrow> (nat \<Rightarrow> chatRequest \<Rightarrow> string + chatStream) \<Rightarrow> request \<Rightarrow> streamed" where
  "generateContentStream parse g chat req =
     (let mapped = mapGeminiParamsToOllama (toolsSupported g) req;
          q1 = chat_request g (op_messages mapped) (op_tools mapped) (op_options mapped) True
      in case chat 0 q1 of
           Inr strm \<Rightarrow> consume parse g [q1] strm
         | Inl e \<Rightarrow>
             if isToolsNotSupportedError e \<and> toolsSupported g then
               (let g' = g\<lparr>toolsSupported := False\<rparr>;
                    remapped = mapGeminiParamsToOllama (toolsSupported g') req;
                    q2 = chat_request g (op_messages remapped) None (op_options remapped) True
                in case chat 1 q2 of
                     Inr strm \<Rightarrow> consume parse g' [q1, q2] strm
                   | Inl e2 \<Rightarrow>
                       \<lparr>st_yielded = [], st_error = Some (generateContentStream_failed e2),
                        st_state = g', st_sent = [q1, q2]\<rparr>)
             else \<lparr>st_yielded = [], st_error = Some (generateContentStream_failed e),
                   st_state = g, st_sent = [q1]\<rparr>)"

subsection \<open>countTokens and embedContent\<close>

text \<open>\<^verbatim>\<open>p.text || JSON.stringify(p.functionCall || {})\<close>\<close>

definition token_text :: "part \<Rightarrow> string" where
  "token_text p =
     (if truthy_str (p_text p) then str_or_empty (p_text p)
      else JSON_stringify (or_empty_object (p_functionCall p)))"

definition content_token_text :: "content \<Rightarrow> string" where
  "content_token_text c =
     (case c_parts c of None \<Rightarrow> [] | Some ps \<Rightarrow> join '' '' (map token_text ps))"

definition totalText :: "request \<Rightarrow> string" where
  "totalText req = concat (map content_token_text (contentsArr req))"

text \<open>\<^verbatim>\<open>Math.ceil(n / 4)\<close> on a length.\<close>

definition ceil_quarter :: "nat \<Rightarrow> nat" where
  "ceil_quarter n = (n + 3) div 4"

definition countTokens :: "ollamaContentGenerator \<Rightarrow> request \<Rightarrow> nat" where
  "countTokens g req = ceil_quarter (length (totalText req))"

definition parts_text :: "part list \<Rightarrow> string" where
  "parts_text ps = join '' '' (map (\<lambda>p. str_or_empty (p_text p)) ps)"

definition embed_input :: "request \<Rightarrow> string" where
  "embed_input req =
     (case r_contents req of
        None \<Rightarrow> []
      | Some (ContentString s) \<Rightarrow> s
      | Some (ContentOne c) \<Rightarrow> (case c_parts c of None \<Rightarrow> [] | Some ps \<Rightarrow> parts_text ps)
      | Some (ContentArray cs) \<Rightarrow>
          join '' '' (map (\<lambda>c. case c_parts c of None \<Rightarrow> [] | Some ps \<Rightarrow> parts_text ps) cs))"

text \<open>\<open>embeddings m prompt\<close> is the answer of the backend's embeddings endpoint.\<close>

definition embedContent :: "ollamaContentGenerator \<Rightarrow> (string \<Rightarrow> string \<Rightarrow> string + real list)
    \<Rightarrow> request \<Rightarrow> string + real list" where
  "embedContent g embeddings req =
     (if embed_input req = [] then Inl ''No text content for embeddings''
      else embeddings (og_model g) (embed_input req))"


subsection \<open>The second copy of the generator\<close>

text \<open>
  The source holds a second copy of the class. Its \<^verbatim>\<open>mapGeminiParamsToOllama\<close> is
  translated here statement by statement, as loops that push onto arrays.
\<close>

fun push_declarations_v2 :: "ollamaTool list \<Rightarrow> functionDeclaration list \<Rightarrow> ollamaTool list" where
  "push_declarations_v2 acc [] = acc"
| "push_declarations_v2 acc (fd # fds) =
     push_declarations_v2
       (acc @ [\<lparr>ot_name = fd_name fd,
                ot_description = (case fd_description fd of None \<Rightarrow> [] | Some d \<Rightarrow> d),
                ot_parameters = (if truthy (fd_parameters fd) then the (fd_parameters fd)
                                 else JObj [(''type'', JStr ''object''), (''properties'', JObj [])])\<rparr>])
       fds"

fun push_tools_v2 :: "ollamaTool list \<Rightarrow> tool list \<Rightarrow> ollamaTool list" where
  "push_tools_v2 acc [] = acc"
| "push_tools_v2 acc (t # ts) =
     (case t_functionDeclarations t of
        None \<Rightarrow> push_tools_v2 acc ts
      | Some fds \<Rightarrow> push_tools_v2 (push_declarations_v2 acc fds) ts)"

fun push_tool_messages_v2 :: "message list \<Rightarrow> part list \<Rightarrow> message list" where
  "push_tool_messages_v2 messages [] = messages"
| "push_tool_messages_v2 messages (p # ps) =
     push_tool_messages_v2
       (messages @ [\<lparr>m_role = ''tool'',
                     m_content = JSON_stringify
                       (or_empty_object (prop_of (p_functionResponse p) ''response'')),
                     m_tool_calls = None\<rparr>])
       ps"

fun push_tool_calls_v2 :: "toolCall list \<Rightarrow> part list \<Rightarrow> toolCall list" where
  "push_tool_calls_v2 tool_calls [] = tool_calls"
| "push_tool_calls_v2 tool_calls (p # ps) =
     push_tool_calls_v2
       (tool_calls @ [\<lparr>tc_name = prop_of (p_functionCall p) ''name'',
                       tc_arguments = or_empty_object (prop_of (p_functionCall p) ''args'')\<rparr>])
       ps"

fun contents_loop_v2 :: "bool \<Rightarrow> message list \<Rightarrow> content list \<Rightarrow> message list" where
  "contents_loop_v2 supported messages [] = messages"
| "contents_loop_v2 supported messages (c # rest) =
     (let ollamaRole = (if c_role c = Some ''model'' then ''assistant'' else ''user'');
          frParts = filter_parts (\<lambda>p. truthy (p_functionResponse p)) c
      in if frParts \<noteq> [] \<and> \<not> supported then contents_loop_v2 supported messages rest
         else
          (let isToolResponse = (frParts \<noteq> []);
               messages1 = (if isToolResponse then push_tool_messages_v2 messages frParts
                            else messages);
               tParts = filter_parts (\<lambda>p. truthy_str (p_text p)) c;
               fcParts = filter_parts (\<lambda>p. truthy (p_functionCall p)) c
           in if \<not> isToolResponse \<or> tParts \<noteq> [] \<or> fcParts \<noteq> [] then
                (let text = join [] (map (\<lambda>p. str_or_empty (p_text p)) tParts);
                     tool_calls = (if supported then push_tool_calls_v2 [] fcParts else [])
                 in if text \<noteq> [] \<or> tool_calls \<noteq> [] then
                      contents_loop_v2 supported
                        (messages1 @ [\<lparr>m_role = ollamaRole, m_content = text,
                                       m_tool_calls = (if tool_calls \<noteq> [] then Some tool_calls
                                                       else None)\<rparr>])
                        rest
                    else contents_loop_v2 supported messages1 rest)
              else contents_loop_v2 supported messages1 rest))"

definition mapGeminiParamsToOllama_v2 :: "bool \<Rightarrow> request \<Rightarrow> ollamaParams" where
  "mapGeminiParamsToOllama_v2 supported req =
     (let messages0 =
            (case request_systemInstruction req of
               None \<Rightarrow> []
             | Some si \<Rightarrow>
                 (let text = (case si of
                                InstructionString s \<Rightarrow> s
                              | InstructionContent None \<Rightarrow> []
                              | InstructionContent (Some ps) \<Rightarrow>
                                  join instruction_separator (map (\<lambda>p. str_or_empty (p_text p)) ps))
                  in if text \<noteq> [] then [\<lparr>m_role = ''system'', m_content = text, m_tool_calls = None\<rparr>]
                     else []));
          ollamaTools_v2 =
            (if supported \<and> request_tools req \<noteq> []
             then Some (push_tools_v2 [] (request_tools req)) else None);
          messages = contents_loop_v2 supported messages0 (contentsArr req)
      in \<lparr>op_messages = messages,
          op_tools = (case ollamaTools_v2 of
                        None \<Rightarrow> None
                      | Some ts \<Rightarrow> (if length ts \<noteq> 0 then Some ts else None)),
          op_options = \<lparr>opt_temperature = request_temperature req\<rparr>\<rparr>)"

section \<open>The credential store\<close>

text \<open>
  The credentials that \<^verbatim>\<open>apiKeyCredentialStorage\<close> writes and reads, and the store as a
  map from entry names to credentials.
\<close>

record oauthToken =
  accessToken :: string
  tokenType :: string

record oauthCredentials =
  serverName :: string
  token :: "oauthToken option"
  updatedAt :: int

type_synonym tokenStorage = "string \<Rightarrow> oauthCredentials option"

text \<open>
  Modelled from the spec: the three operations of the token storage
  (\<^verbatim>\<open>HybridTokenStorage\<close>, imported from \<^verbatim>\<open>mcp/token-storage\<close>), whose source is not
  among the files of the adapters. It is the credential collaborator of the
  specification: \<^verbatim>\<open>get(key) -> credentials | absent\<close>,
  \<^verbatim>\<open>set(key, credentials) -> ok\<close>, \<^verbatim>\<open>delete(key) -> ok\<close>, each of which may fail.
  Whether a call fails is decided outside the program. A read is given the error the
  store throws at it, if any. A write is given, if it fails, the error the store throws
  and the store that the failed call leaves behind.
\<close>

type_synonym read_fault = "string option"

type_synonym write_fault = "(string \<times> tokenStorage) option"

definition getCredentials :: "read_fault \<Rightarrow> tokenStorage \<Rightarrow> string \<Rightarrow> string + oauthCredentials option" where
  "getCredentials fault store k = (case fault of Some e \<Rightarrow> Inl e | None \<Rightarrow> Inr (store k))"

definition setCredentials :: "write_fault \<Rightarrow> tokenStorage \<Rightarrow> oauthCredentials
    \<Rightarrow> string option \<times> tokenStorage" where
  "setCredentials fault store c =
     (case fault of
        Some (e, left) \<Rightarrow> (Some e, left)
      | None \<Rightarrow> (None, store(serverName c := Some c)))"

definition deleteCredentials :: "write_fault \<Rightarrow> tokenStorage \<Rightarrow> string
    \<Rightarrow> string option \<times> tokenStorage" where
  "deleteCredentials fault store k =
     (case fault of
        Some (e, left) \<Rightarrow> (Some e, left)
      | None \<Rightarrow> (None, store(k := None)))"

subsection \<open>apiKeyCredentialStorage\<close>

text \<open>
  A function of this module that returns a value gives \<open>Inr\<close> of it, or \<open>Inl\<close> of the
  error it throws. A function that returns nothing gives the error it throws, if any,
  and the store after the call.
\<close>

definition DEFAULT_API_KEY_ENTRY :: string where
  "DEFAULT_API_KEY_ENTRY = ''default-api-key''"

definition ANTHROPIC_API_KEY_ENTRY :: string where
  "ANTHROPIC_API_KEY_ENTRY = ''anthropic-api-key''"

text \<open>\<^verbatim>\<open>credentials?.token?.accessToken\<close>, when it is truthy; \<open>None\<close> is \<^verbatim>\<open>null\<close>.\<close>

definition stored_key :: "oauthCredentials option \<Rightarrow> string option" where
  "stored_key c =
     (case c of
        None \<Rightarrow> None
      | Some cred \<Rightarrow>
          (case token cred of
             None \<Rightarrow> None
           | Some t \<Rightarrow> (if accessToken t \<noteq> [] then Some (accessToken t) else None)))"

text \<open>
  The loaders: the \<^verbatim>\<open>try\<close> block returns the stored key or \<^verbatim>\<open>null\<close>; the
  \<^verbatim>\<open>catch\<close> block logs the error of the store and returns \<^verbatim>\<open>null\<close>.
\<close>

definition loadApiKey :: "read_fault \<Rightarrow> tokenStorage \<Rightarrow> string + string option" where
  "loadApiKey fault store =
     (case getCredentials fault store DEFAULT_API_KEY_ENTRY of
        Inl error \<Rightarrow> Inr None
      | Inr credentials \<Rightarrow> Inr (stored_key credentials))"

definition loadAnthropicApiKey :: "read_fault \<Rightarrow> tokenStorage \<Rightarrow> string + string option" where
  "loadAnthropicApiKey fault store =
     (case getCredentials fault store ANTHROPIC_API_KEY_ENTRY of
        Inl error \<Rightarrow> Inr None
      | Inr credentials \<Rightarrow> Inr (stored_key credentials))"

text \<open>
  Clearing: the \<^verbatim>\<open>try\<close> block deletes the entry; the \<^verbatim>\<open>catch\<close> block logs the
  error of the store and the function returns.
\<close>

definition clearApiKey :: "write_fault \<Rightarrow> tokenStorage \<Rightarrow> string option \<times> tokenStorage" where
  "clearApiKey fault store =
     (case deleteCredentials fault store DEFAULT_API_KEY_ENTRY of
        (Some error, store') \<Rightarrow> (None, store')
      | (None, store') \<Rightarrow> (None, store'))"

definition clearAnthropicApiKey :: "write_fault \<Rightarrow> tokenStorage \<Rightarrow> string option \<times> tokenStorage" where
  "clearAnthropicApiKey fault store =
     (case deleteCredentials fault store ANTHROPIC_API_KEY_ENTRY of
        (Some error, store') \<Rightarrow> (None, store')
      | (None, store') \<Rightarrow> (None, store'))"

text \<open>
  Saving an absent or blank key deletes the entry and ignores an error of the store;
  saving any other key stores it, and an error of the store is thrown. \<open>now\<close> is the
  clock reading \<^verbatim>\<open>Date.now()\<close>.
\<close>

definition save_key :: "string \<Rightarrow> write_fault \<Rightarrow> int \<Rightarrow> string option \<Rightarrow> tokenStorage
    \<Rightarrow> string option \<times> tokenStorage" where
  "save_key entry fault now apiKey store =
     (if \<not> truthy_str apiKey \<or> trim (str_or_empty apiKey) = []
      then (None, snd (deleteCredentials fault store entry))
      else setCredentials fault store
             \<lparr>serverName = entry,
              token = Some \<lparr>accessToken = str_or_empty apiKey, tokenType = ''ApiKey''\<rparr>,
              updatedAt = now\<rparr>)"

definition saveApiKey :: "write_fault \<Rightarrow> int \<Rightarrow> string option \<Rightarrow> tokenStorage
    \<Rightarrow> string option \<times> tokenStorage" where
  "saveApiKey = save_key DEFAULT_API_KEY_ENTRY"

definition saveAnthropicApiKey :: "write_fault \<Rightarrow> int \<Rightarrow> string option \<Rightarrow> tokenStorage
    \<Rightarrow> string option \<times> tokenStorage" where
  "saveAnthropicApiKey = save_key ANTHROPIC_API_KEY_ENTRY"

section \<open>The Anthropic adapter\<close>

text \<open>
  The methods of \<^verbatim>\<open>AnthropicContentGenerator\<close> carry the prefix \<open>Anthropic_\<close>; the
  unprefixed names above are those of \<^verbatim>\<open>OllamaContentGenerator\<close>. The class has no
  field that records tool support: its translation reads the request only.
\<close>

datatype contentBlockParam =
    ToolResultBlock json string
  | TextBlock string
  | ToolUseBlock json "json option" json

record messageParam =
  mp_role :: string
  mp_content :: "contentBlockParam list"

record anthropicTool =
  at_name :: string
  at_description :: string
  at_input_schema :: json

record anthropicParams =
  ap_system :: "string option"
  ap_messages :: "messageParam list"
  ap_tools :: "anthropicTool list option"
  ap_temperature :: "real option"
  ap_max_tokens :: nat

record messagesRequest =
  mq_model :: string
  mq_system :: "string option"
  mq_messages :: "messageParam list"
  mq_tools :: "anthropicTool list option"
  mq_temperature :: "real option"
  mq_max_tokens :: nat

datatype contentBlock =
    TextOut string
  | ToolUseOut string string json
  | OtherBlock

record anthropicMessage =
  am_content :: "contentBlock list"
  am_input_tokens :: nat
  am_output_tokens :: nat

text \<open>The adapter: its model name and the client it has built, given by the client's key.\<close>

record anthropicContentGenerator =
  ag_model :: string
  ag_anthropic :: "string option"

definition new_AnthropicContentGenerator :: "string \<Rightarrow> anthropicContentGenerator" where
  "new_AnthropicContentGenerator m =
     \<lparr>ag_model = (if startsWith m ''anthropic/'' then drop 10 m else m), ag_anthropic = None\<rparr>"

definition missing_key_message :: string where
  "missing_key_message =
     ''Anthropic API key is missing. Please set ANTHROPIC_API_KEY or run ''
     @ [CHR 0x27] @ ''auth'' @ [CHR 0x27] @ '' to set it.''"

text \<open>
  \<open>env\<close> is the environment variable \<^verbatim>\<open>ANTHROPIC_API_KEY\<close>; \<open>fault\<close> and \<open>store\<close> are
  the credential store at the time of the call. The stored key is loaded only when the
  variable is not set.
\<close>

definition getAnthropic :: "anthropicContentGenerator \<Rightarrow> string option \<Rightarrow> read_fault
    \<Rightarrow> tokenStorage \<Rightarrow> (string + string) \<times> anthropicContentGenerator" where
  "getAnthropic g env fault store =
     (case ag_anthropic g of
        Some client \<Rightarrow> (Inr client, g)
      | None \<Rightarrow>
          (case (if truthy_str env then Inr env else loadAnthropicApiKey fault store) of
             Inl e \<Rightarrow> (Inl e, g)
           | Inr key \<Rightarrow>
               if \<not> truthy_str key then (Inl missing_key_message, g)
               else (Inr (str_or_empty key), g\<lparr>ag_anthropic := key\<rparr>)))"

subsection \<open>mapGeminiParamsToAnthropic\<close>

definition anthropic_tool :: "functionDeclaration \<Rightarrow> anthropicTool" where
  "anthropic_tool fd =
     \<lparr>at_name = fd_name fd,
      at_description = str_or_empty (fd_description fd),
      at_input_schema = (if truthy (fd_parameters fd) then the (fd_parameters fd)
                         else default_parameters)\<rparr>"

definition anthropicTools :: "request \<Rightarrow> anthropicTool list option" where
  "anthropicTools req =
     (if request_tools req \<noteq> []
      then Some (map anthropic_tool (request_declarations req))
      else None)"

text \<open>\<^verbatim>\<open>id || 'unknown_id'\<close>\<close>

definition id_or_unknown :: "json option \<Rightarrow> json" where
  "id_or_unknown v = (if truthy v then the v else JStr ''unknown_id'')"

definition tool_result_block :: "part \<Rightarrow> contentBlockParam" where
  "tool_result_block p =
     ToolResultBlock (id_or_unknown (prop_of (p_functionResponse p) ''id''))
       (JSON_stringify (or_empty_object (prop_of (p_functionResponse p) ''response'')))"

definition tool_use_block :: "part \<Rightarrow> contentBlockParam" where
  "tool_use_block p =
     ToolUseBlock (id_or_unknown (prop_of (p_functionCall p) ''id''))
       (prop_of (p_functionCall p) ''name'')
       (or_empty_object (prop_of (p_functionCall p) ''args''))"

definition contentBlocks :: "content \<Rightarrow> contentBlockParam list" where
  "contentBlocks c =
     map tool_result_block (functionResponseParts c)
     @ (if textParts c \<noteq> []
        then [TextBlock (concat (map (\<lambda>p. str_or_empty (p_text p)) (textParts c)))] else [])
     @ map tool_use_block (functionCallParts c)"

definition anthropic_content_messages :: "content \<Rightarrow> messageParam list" where
  "anthropic_content_messages c =
     (if contentBlocks c \<noteq> []
      then [\<lparr>mp_role = (if c_role c = Some ''model'' then ''assistant'' else ''user''),
             mp_content = contentBlocks c\<rparr>]
      else [])"

definition systemText :: "request \<Rightarrow> string" where
  "systemText req =
     (case request_systemInstruction req of None \<Rightarrow> [] | Some si \<Rightarrow> instruction_text si)"

definition mapGeminiParamsToAnthropic :: "request \<Rightarrow> anthropicParams" where
  "mapGeminiParamsToAnthropic req =
     \<lparr>ap_system = (if systemText req \<noteq> [] then Some (systemText req) else None),
      ap_messages = concat (map anthropic_content_messages (contentsArr req)),
      ap_tools = (case anthropicTools req of
                    None \<Rightarrow> None
                  | Some ts \<Rightarrow> (if ts = [] then None else Some ts)),
      ap_temperature = request_temperature req,
      ap_max_tokens = 8192\<rparr>"

definition messages_request :: "string \<Rightarrow> anthropicParams \<Rightarrow> messagesRequest" where
  "messages_request m params =
     \<lparr>mq_model = m, mq_system = ap_system params, mq_messages = ap_messages params,
      mq_tools = ap_tools params, mq_temperature = ap_temperature params,
      mq_max_tokens = ap_max_tokens params\<rparr>"

subsection \<open>Anthropic generateContent\<close>

record 'a anthropicOutcome =
  ao_result :: "string + 'a"
  ao_state :: anthropicContentGenerator
  ao_sent :: "messagesRequest list"

fun block_parts :: "contentBlock list \<Rightarrow> part list" where
  "block_parts [] = []"
| "block_parts (TextOut t # bs) = text_part t # block_parts bs"
| "block_parts (ToolUseOut i n inp # bs) =
     functionCall_part (JObj [(''name'', JStr n), (''args'', inp), (''id'', JStr i)])
     # block_parts bs"
| "block_parts (OtherBlock # bs) = block_parts bs"

definition anthropic_response :: "anthropicMessage \<Rightarrow> response" where
  "anthropic_response m =
     \<lparr>g_parts = block_parts (am_content m),
      g_finishReason = None,
      g_promptTokenCount = am_input_tokens m,
      g_candidatesTokenCount = am_output_tokens m,
      g_totalTokenCount = am_input_tokens m + am_output_tokens m,
      g_text = None,
      g_functionCalls = None\<rparr>"

definition Anthropic_generateContent_failed :: "string \<Rightarrow> string" where
  "Anthropic_generateContent_failed e = ''Anthropic generateContent failed: '' @ e"

text \<open>\<open>create q\<close> is the answer of the backend to \<^verbatim>\<open>client.messages.create(q)\<close>.\<close>

definition Anthropic_generateContent :: "anthropicContentGenerator \<Rightarrow> string option \<Rightarrow> string option
    \<Rightarrow> tokenStorage \<Rightarrow> (messagesRequest \<Rightarrow> string + anthropicMessage) \<Rightarrow> request
    \<Rightarrow> response anthropicOutcome" where
  "Anthropic_generateContent g env fault store create req =
     (let params = mapGeminiParamsToAnthropic req
      in case getAnthropic g env fault store of
           (Inl e, g') \<Rightarrow>
             \<lparr>ao_result = Inl (Anthropic_generateContent_failed e), ao_state = g', ao_sent = []\<rparr>
         | (Inr client, g') \<Rightarrow>
             (let q = messages_request (ag_model g) params
              in case create q of
                   Inl e \<Rightarrow>
                     \<lparr>ao_result = Inl (Anthropic_generateContent_failed e), ao_state = g',
                      ao_sent = [q]\<rparr>
                 | Inr m \<Rightarrow>
                     \<lparr>ao_result = Inr (anthropic_response m), ao_state = g', ao_sent = [q]\<rparr>))"

subsection \<open>Anthropic generateContentStream\<close>

text \<open>
  The events of the backend's stream, as far as the loop tells them apart: the start of
  the message with the input-token count of its usage (if it has one), a text delta,
  a message delta with the output-token count of its usage (if it has one), and any
  other event.
\<close>

datatype streamEvent =
    MessageStart "nat option"
  | TextDelta string
  | MessageDelta "nat option"
  | OtherEvent

record finalMessage =
  fm_content :: "contentBlock list"
  fm_output_tokens :: "nat option"

record anthropicStreamState =
  as_promptTokenCount :: nat
  as_candidatesTokenCount :: nat
  as_currentText :: string

definition initial_anthropicStreamState :: anthropicStreamState where
  "initial_anthropicStreamState =
     \<lparr>as_promptTokenCount = 0, as_candidatesTokenCount = 0, as_currentText = []\<rparr>"

fun on_event :: "anthropicStreamState \<Rightarrow> streamEvent \<Rightarrow> anthropicStreamState" where
  "on_event s (MessageStart (Some n)) = s\<lparr>as_promptTokenCount := n\<rparr>"
| "on_event s (MessageStart None) = s"
| "on_event s (TextDelta t) = s\<lparr>as_currentText := as_currentText s @ t\<rparr>"
| "on_event s (MessageDelta (Some n)) = s\<lparr>as_candidatesTokenCount := n\<rparr>"
| "on_event s (MessageDelta None) = s"
| "on_event s OtherEvent = s"

text \<open>
  A yielded response exposes \<^verbatim>\<open>text\<close> and \<^verbatim>\<open>functionCalls\<close> as functions of the
  generator's variables; the record holds what they return when the response is yielded.
\<close>

definition partial_response :: "anthropicStreamState \<Rightarrow> response" where
  "partial_response s =
     \<lparr>g_parts = [text_part (as_currentText s)],
      g_finishReason = None,
      g_promptTokenCount = as_promptTokenCount s,
      g_candidatesTokenCount = as_candidatesTokenCount s,
      g_totalTokenCount = as_promptTokenCount s + as_candidatesTokenCount s,
      g_text = Some (as_currentText s),
      g_functionCalls = Some []\<rparr>"

fun event_loop :: "anthropicStreamState \<Rightarrow> streamEvent list \<Rightarrow> anthropicStreamState \<times> response list" where
  "event_loop s [] = (s, [])"
| "event_loop s (ev # evs) =
     (let s' = on_event s ev; (s'', rs) = event_loop s' evs
      in (s'', partial_response s' # rs))"

fun block_calls :: "contentBlock list \<Rightarrow> json list" where
  "block_calls [] = []"
| "block_calls (ToolUseOut i n inp # bs) =
     JObj [(''name'', JStr n), (''args'', inp), (''id'', JStr i)] # block_calls bs"
| "block_calls (b # bs) = block_calls bs"

definition final_responses :: "anthropicStreamState \<Rightarrow> finalMessage \<Rightarrow> response list" where
  "final_responses s fm =
     (let candidates = (case fm_output_tokens fm of
                          None \<Rightarrow> as_candidatesTokenCount s
                        | Some n \<Rightarrow> n)
      in if block_parts (fm_content fm) \<noteq> [] then
           [\<lparr>g_parts = block_parts (fm_content fm),
             g_finishReason = None,
             g_promptTokenCount = as_promptTokenCount s,
             g_candidatesTokenCount = candidates,
             g_totalTokenCount = as_promptTokenCount s + candidates,
             g_text = Some (as_currentText s),
             g_functionCalls = Some (block_calls (fm_content fm))\<rparr>]
         else [])"

text \<open>
  The stream of the backend: its events, then either the error that breaks it off or the
  final message. As for Ollama, the generator is modelled as fully consumed.
\<close>

type_synonym anthropicStream = "streamEvent list \<times> (string + finalMessage)"

record anthropicStreamed =
  ast_yielded :: "response list"
  ast_error :: "string option"
  ast_state :: anthropicContentGenerator
  ast_sent :: "messagesRequest list"

definition Anthropic_generateContentStream_failed :: "string \<Rightarrow> string" where
  "Anthropic_generateContentStream_failed e = ''Anthropic generateContentStream failed: '' @ e"

definition anthropic_consume :: "anthropicStream \<Rightarrow> response list \<times> string option" where
  "anthropic_consume strm =
     (let (s, rs) = event_loop initial_anthropicStreamState (fst strm)
      in case snd strm of
           Inl e \<Rightarrow> (rs, Some (Anthropic_generateContentStream_failed e))
         | Inr fm \<Rightarrow> (rs @ final_responses s fm, None))"

text \<open>The client is obtained before the generator is made: its error is thrown as it is.\<close>

definition Anthropic_generateContentStream :: "anthropicContentGenerator \<Rightarrow> string option
    \<Rightarrow> string option \<Rightarrow> tokenStorage \<Rightarrow> (messagesRequest \<Rightarrow> string + anthropicStream)
    \<Rightarrow> request \<Rightarrow> anthropicStreamed" where
  "Anthropic_generateContentStream g env fault store stream req =
     (let params = mapGeminiParamsToAnthropic req
      in case getAnthropic g env fault store of
           (Inl e, g') \<Rightarrow>
             \<lparr>ast_yielded = [], ast_error = Some e, ast_state = g', ast_sent = []\<rparr>
         | (Inr client, g') \<Rightarrow>
             (let q = messages_request (ag_model g) params
              in case stream q of
                   Inl e \<Rightarrow>
                     \<lparr>ast_yielded = [],
                      ast_error = Some (Anthropic_generateContentStream_failed e),
                      ast_state = g', ast_sent = [q]\<rparr>
                 | Inr strm \<Rightarrow>
                     \<lparr>ast_yielded = fst (anthropic_consume strm),
                      ast_error = snd (anthropic_consume strm),
                      ast_state = g', ast_sent = [q]\<rparr>))"

subsection \<open>Anthropic countTokens and embedContent\<close>

definition Anthropic_countTokens :: "anthropicContentGenerator \<Rightarrow> request \<Rightarrow> nat" where
  "Anthropic_countTokens g req = ceil_quarter (length (totalText req))"

definition Anthropic_embedContent :: "anthropicContentGenerator \<Rightarrow> request \<Rightarrow> string + real list" where
  "Anthropic_embedContent g req =
     Inl ''Embeddings API is not supported via Anthropic module yet.''"


section \<open>Sequences of operations on one Ollama adapter\<close>

text \<open>
  The four public operations, each with the answers the backend gives during it.
  \<^verbatim>\<open>countTokens\<close> and \<^verbatim>\<open>embedContent\<close> assign no field of the adapter.
\<close>

datatype operation =
    GenerateContent request "nat \<Rightarrow> chatRequest \<Rightarrow> string + chatResponse"
  | GenerateContentStream request "nat \<Rightarrow> chatRequest \<Rightarrow> string + chatStream"
  | CountTokens request
  | EmbedContent request "string \<Rightarrow> string \<Rightarrow> string + real list"

fun perform :: "json_parser \<Rightarrow> ollamaContentGenerator \<Rightarrow> operation \<Rightarrow> ollamaContentGenerator" where
  "perform parse g (GenerateContent req chat) = out_state (generateContent g chat req)"
| "perform parse g (GenerateContentStream req chat) =
     st_state (generateContentStream parse g chat req)"
| "perform parse g (CountTokens req) = g"
| "perform parse g (EmbedContent req embeddings) = g"

fun run :: "json_parser \<Rightarrow> ollamaContentGenerator \<Rightarrow> operation list \<Rightarrow> ollamaContentGenerator" where
  "run parse g [] = g"
| "run parse g (op # ops) = run parse (perform parse g op) ops"

section \<open>Notions of the specification\<close>

text \<open>
  An adapter of either class, and its tool-support state. The state of an Ollama adapter
  is its field \<^verbatim>\<open>toolsSupported\<close>. The class \<^verbatim>\<open>AnthropicContentGenerator\<close> has no such
  field and nothing that disables tools: an Anthropic adapter, Enabled when it is
  constructed, is Enabled for its lifetime.
\<close>

datatype adapter =
    OllamaAdapter ollamaContentGenerator
  | AnthropicAdapter anthropicContentGenerator

datatype toolSupportState = Enabled | Disabled

fun toolSupportState_of :: "adapter \<Rightarrow> toolSupportState" where
  "toolSupportState_of (OllamaAdapter g) = (if toolsSupported g then Enabled else Disabled)"
| "toolSupportState_of (AnthropicAdapter a) = Enabled"

text \<open>Whether the payload that an adapter translates a request to carries tools.\<close>

fun payload_has_tools :: "adapter \<Rightarrow> request \<Rightarrow> bool" where
  "payload_has_tools (OllamaAdapter g) req =
     (op_tools (mapGeminiParamsToOllama (toolsSupported g) req) \<noteq> None)"
| "payload_has_tools (AnthropicAdapter a) req =
     (ap_tools (mapGeminiParamsToAnthropic req) \<noteq> None)"

text \<open>
  The token estimate in the words of the specification: all text parts and the
  stringified form of all function-call and function-response payloads, across all
  messages, joined by single spaces; a quarter of the character count, rounded up.
\<close>

definition spec_pieces :: "part \<Rightarrow> string list" where
  "spec_pieces p =
     (case p_text p of None \<Rightarrow> [] | Some t \<Rightarrow> [t])
     @ (case p_functionCall p of None \<Rightarrow> [] | Some fc \<Rightarrow> [JSON_stringify fc])
     @ (case p_functionResponse p of None \<Rightarrow> [] | Some fr \<Rightarrow> [JSON_stringify fr])"

definition countTokens_spec :: "request \<Rightarrow> nat" where
  "countTokens_spec req =
     ceil_quarter (length (join '' ''
       (concat (map (\<lambda>c. concat (map spec_pieces (filter_parts (\<lambda>p. True) c)))
                    (contentsArr req)))))"

text \<open>
  The same estimate with the messages following each other without a separator: the
  pieces of one message are joined by single spaces, and the texts of the messages are
  put one after the other.
\<close>

definition message_parts :: "content \<Rightarrow> part list" where
  "message_parts c = filter_parts (\<lambda>p. True) c"

definition countTokens_by_message :: "request \<Rightarrow> nat" where
  "countTokens_by_message req =
     ceil_quarter (length (concat
       (map (\<lambda>c. join '' '' (concat (map spec_pieces (message_parts c))))
            (contentsArr req))))"

text \<open>
  The two kinds of part of the data model that the estimate is stated for below: a
  text part with text that is not empty, and a function-call part.
\<close>

definition text_or_call_part :: "part \<Rightarrow> bool" where
  "text_or_call_part p =
     ((truthy_str (p_text p) \<and> p_functionCall p = None \<and> p_functionResponse p = None)
      \<or> (p_text p = None \<and> truthy (p_functionCall p) \<and> p_functionResponse p = None))"

text \<open>
  The white space of ECMAScript among the 8-bit characters: tab, line feed, vertical
  tab, form feed, carriage return, space and no-break space.
\<close>

abbreviation white_space :: "char set" where
  "white_space \<equiv> {CHR 0x09, CHR 0x0A, CHR 0x0B, CHR 0x0C, CHR 0x0D, CHR 0x20, CHR 0xA0}"

text \<open>The parts of a sequence of yielded responses, and those that carry text or a call.\<close>

definition all_parts :: "response list \<Rightarrow> part list" where
  "all_parts rs = concat (map g_parts rs)"

definition text_parts_of :: "part list \<Rightarrow> part list" where
  "text_parts_of ps = filter (\<lambda>p. p_text p \<noteq> None) ps"

definition functionCall_parts_of :: "part list \<Rightarrow> part list" where
  "functionCall_parts_of ps = filter (\<lambda>p. p_functionCall p \<noteq> None) ps"

section \<open>Concrete requests and backends\<close>

definition weather_declaration :: functionDeclaration where
  "weather_declaration =
     \<lparr>fd_name = ''get_weather'', fd_description = Some ''Weather of a city'',
      fd_parameters = None\<rparr>"

definition weather_call :: json where
  "weather_call =
     JObj [(''name'', JStr ''get_weather''), (''args'', JObj [(''city'', JStr ''Paris'')])]"

definition weather_result :: json where
  "weather_result =
     JObj [(''name'', JStr ''get_weather''), (''response'', JObj [(''celsius'', JNum ''21'')])]"

text \<open>A conversation with a declared tool, a call of it by the model, and its result.\<close>

definition tool_conversation :: request where
  "tool_conversation =
     \<lparr>r_model = ''ollama/gemma:2b'',
      r_contents = Some (ContentArray
        [\<lparr>c_role = Some ''user'', c_parts = Some [text_part ''Weather in Paris?'']\<rparr>,
         \<lparr>c_role = Some ''model'', c_parts = Some [functionCall_part weather_call]\<rparr>,
         \<lparr>c_role = Some ''user'', c_parts = Some [functionResponse_part weather_result]\<rparr>]),
      r_config = Some \<lparr>cfg_systemInstruction = None,
                       cfg_tools = Some [\<lparr>t_functionDeclarations = Some [weather_declaration]\<rparr>],
                       cfg_temperature = None\<rparr>\<rparr>"

definition two_messages :: request where
  "two_messages =
     \<lparr>r_model = ''llama3'',
      r_contents = Some (ContentArray
        [\<lparr>c_role = Some ''user'', c_parts = Some [text_part ''abcd'']\<rparr>,
         \<lparr>c_role = Some ''model'', c_parts = Some [text_part ''efgh'']\<rparr>]),
      r_config = None\<rparr>"

definition text_request :: "string \<Rightarrow> request" where
  "text_request t =
     \<lparr>r_model = ''llama3'',
      r_contents = Some (ContentOne \<lparr>c_role = Some ''user'', c_parts = Some [text_part t]\<rparr>),
      r_config = None\<rparr>"

definition empty_request :: request where
  "empty_request = \<lparr>r_model = ''llama3'', r_contents = None, r_config = None\<rparr>"

text \<open>A question with the call the model answers it with; a lone function response.\<close>

definition call_conversation :: request where
  "call_conversation =
     \<lparr>r_model = ''llama3'',
      r_contents = Some (ContentArray
        [\<lparr>c_role = Some ''user'', c_parts = Some [text_part ''Weather in Paris?'']\<rparr>,
         \<lparr>c_role = Some ''model'',
          c_parts = Some [text_part ''One moment.'', functionCall_part weather_call]\<rparr>]),
      r_config = None\<rparr>"

definition response_only_request :: request where
  "response_only_request =
     \<lparr>r_model = ''llama3'',
      r_contents = Some (ContentOne
        \<lparr>c_role = Some ''user'', c_parts = Some [functionResponse_part weather_result]\<rparr>),
      r_config = None\<rparr>"

text \<open>A model that rejects every payload with tools, the way the Ollama server words it.\<close>

definition tools_rejected :: string where
  "tools_rejected = ''registry.ollama.ai/library/gemma:2b does not support tools''"

definition plain_answer :: chatResponse where
  "plain_answer =
     \<lparr>cr_message = Some \<lparr>m_role = ''assistant'', m_content = ''Sunny.'', m_tool_calls = None\<rparr>,
      cr_prompt_eval_count = Some 12, cr_eval_count = Some 3, cr_done = True\<rparr>"

definition rejecting_chat :: "nat \<Rightarrow> chatRequest \<Rightarrow> string + chatResponse" where
  "rejecting_chat i q = (if cq_tools q \<noteq> None then Inl tools_rejected else Inr plain_answer)"

definition rejecting_stream :: "nat \<Rightarrow> chatRequest \<Rightarrow> string + chatStream" where
  "rejecting_stream i q =
     (if cq_tools q \<noteq> None then Inl tools_rejected else Inr ([plain_answer], None))"

definition gemma :: ollamaContentGenerator where
  "gemma = new_OllamaContentGenerator ''ollama/gemma:2b''"

text \<open>Chunks of a stream that carry text only, and the chunk that ends a stream.\<close>

definition text_chunk :: "string \<Rightarrow> chatResponse" where
  "text_chunk t =
     \<lparr>cr_message = Some \<lparr>m_role = ''assistant'', m_content = t, m_tool_calls = None\<rparr>,
      cr_prompt_eval_count = None, cr_eval_count = None, cr_done = False\<rparr>"

definition end_of_stream :: chatResponse where
  "end_of_stream =
     \<lparr>cr_message = Some \<lparr>m_role = ''assistant'', m_content = [], m_tool_calls = None\<rparr>,
      cr_prompt_eval_count = Some 12, cr_eval_count = Some 9, cr_done = True\<rparr>"

definition split_json_chunks :: "chatResponse list" where
  \<open>split_json_chunks =
     [text_chunk ''{'', text_chunk ''"name":"foo",'', text_chunk ''"arguments":{}}'',
      end_of_stream]\<close>

definition joined_json_chunks :: "chatResponse list" where
  \<open>joined_json_chunks =
     [text_chunk ''{"name"'', text_chunk '':"foo",'', text_chunk ''"arguments":{}}'',
      end_of_stream]\<close>

text \<open>
  A fragment that begins with white space, and one that has a brace and a quoted word
  other than name.
\<close>

definition indented_json_chunks :: "chatResponse list" where
  \<open>indented_json_chunks =
     [text_chunk '' {"name":"foo","arguments":{}}'', end_of_stream]\<close>

definition other_json_chunks :: "chatResponse list" where
  \<open>other_json_chunks = [text_chunk ''{"node":1}'', end_of_stream]\<close>

text \<open>
  The value of \<^verbatim>\<open>JSON.parse\<close> for the one text that the examples parse. The function
  takes the place of \<^verbatim>\<open>JSON.parse\<close> in the closed instances below, which parse no
  other text.
\<close>

definition parse_foo_call :: json_parser where
  \<open>parse_foo_call s =
     (if s = ''{"name":"foo","arguments":{}}''
      then Some (JObj [(''name'', JStr ''foo''), (''arguments'', JObj [])])
      else None)\<close>

definition buffered_call :: streamState where
  \<open>buffered_call =
     \<lparr>ss_promptTokenCount = 0, ss_candidatesTokenCount = 0, ss_totalTokenCount = 0,
      ss_accumulatedText = '' {"name":"foo","arguments":{}} '', ss_isPotentiallyJson = True\<rparr>\<close>

text \<open>An Anthropic adapter, a stored key, and a stream that says a greeting.\<close>

definition claude :: anthropicContentGenerator where
  "claude = new_AnthropicContentGenerator ''anthropic/claude-sonnet''"

definition greeting_stream :: "messagesRequest \<Rightarrow> string + anthropicStream" where
  "greeting_stream q =
     Inr ([MessageStart (Some 9), TextDelta ''Hi'', MessageDelta (Some 2)],
          Inr \<lparr>fm_content = [TextOut ''Hi''], fm_output_tokens = Some 2\<rparr>)"

definition greeting_message :: "messagesRequest \<Rightarrow> string + anthropicMessage" where
  "greeting_message q =
     Inr \<lparr>am_content = [TextOut ''Hi''], am_input_tokens = 9, am_output_tokens = 2\<rparr>"

definition no_store :: tokenStorage where
  "no_store = (\<lambda>k. None)"

text \<open>A store that holds a key for Anthropic, and a failure that leaves a store as it is.\<close>

definition keychain_locked :: "tokenStorage \<Rightarrow> write_fault" where
  "keychain_locked store = Some (''keychain is locked'', store)"

definition stored_anthropic_key :: tokenStorage where
  "stored_anthropic_key = snd (saveAnthropicApiKey None 1700000000000 (Some ''sk-ant-test'') no_store)"


text \<open>
  A request whose only part is a function call, a request with two such parts, and an
  embeddings endpoint.
\<close>

definition two_calls_request :: request where
  "two_calls_request =
     \<lparr>r_model = ''llama3'',
      r_contents = Some (ContentOne
        \<lparr>c_role = Some ''model'',
         c_parts = Some [functionCall_part weather_call, functionCall_part weather_call]\<rparr>),
      r_config = None\<rparr>"


definition call_only_request :: request where
  "call_only_request =
     \<lparr>r_model = ''llama3'',
      r_contents = Some (ContentOne
        \<lparr>c_role = Some ''model'', c_parts = Some [functionCall_part weather_call]\<rparr>),
      r_config = None\<rparr>"

definition unit_embeddings :: "string \<Rightarrow> string \<Rightarrow> string + real list" where
  "unit_embeddings m prompt = Inr [1, 0]"

text \<open>The parts of what one round of the stream loop yields.\<close>

definition yielded_parts :: "response option \<Rightarrow> part list" where
  "yielded_parts y = (case y of None \<Rightarrow> [] | Some r \<Rightarrow> g_parts r)"

section \<open>The two copies of the Ollama translation\<close>

text \<open>Each pushing loop of the second copy appends the image of its input.\<close>

lemma push_declarations_v2_eq: "push_declarations_v2 acc fds = acc @ map ollama_tool fds"
  by (induction fds arbitrary: acc)
     (simp_all add: ollama_tool_def default_parameters_def split: option.split)

lemma push_tools_v2_eq:
  "push_tools_v2 acc ts = acc @ map ollama_tool (concat (map tool_declarations ts))"
  by (induction ts arbitrary: acc)
     (simp_all add: tool_declarations_def push_declarations_v2_eq split: option.split)

lemma push_tool_messages_v2_eq: "push_tool_messages_v2 ms ps = ms @ map tool_message ps"
  by (induction ps arbitrary: ms) (simp_all add: tool_message_def)

lemma push_tool_calls_v2_eq: "push_tool_calls_v2 tcs ps = tcs @ map ollama_tool_call ps"
  by (induction ps arbitrary: tcs) (simp_all add: ollama_tool_call_def)

lemma join_empty_separator: "join [] xs = concat xs"
proof (induction xs)
  case Nil
  show ?case by simp
next
  case (Cons x xs)
  then show ?case by (cases xs) simp_all
qed

lemma contents_loop_v2_step:
  "contents_loop_v2 supported ms (c # rest) =
   contents_loop_v2 supported (ms @ ollama_content_messages supported c) rest"
  by (simp add: Let_def ollama_content_messages_def ollama_turn_def
      functionResponseParts_def textParts_def functionCallParts_def
      push_tool_messages_v2_eq push_tool_calls_v2_eq join_empty_separator
      del: concat_eq_Nil_conv)

lemma contents_loop_v2_eq:
  "contents_loop_v2 supported ms cs = ms @ concat (map (ollama_content_messages supported) cs)"
proof (induction cs arbitrary: ms)
  case Nil
  show ?case by simp
next
  case (Cons c cs)
  show ?case by (simp only: contents_loop_v2_step Cons.IH) simp
qed

text \<open>
  C10. The two copies of the Ollama generator translate requests identically: for every
  request and every value of the tools-supported flag, \<^verbatim>\<open>mapGeminiParamsToOllama\<close> of
  the second copy returns the payload of the first, with the same messages, the same
  tools and the same options.
\<close>

theorem mapGeminiParamsToOllama_versions_agree:
  "mapGeminiParamsToOllama_v2 supported req = mapGeminiParamsToOllama supported req"
  by (simp add: mapGeminiParamsToOllama_v2_def mapGeminiParamsToOllama_def Let_def
      contents_loop_v2_eq push_tools_v2_eq ollamaTools_def request_declarations_def
      ollama_system_messages_def instruction_text_def
      split: option.split contentUnion.split)

section \<open>The token estimate\<close>

text \<open>
  A text part with text and a function-call part count with the one piece that the
  specification names for them.
\<close>

lemma text_or_call_piece: "text_or_call_part p \<Longrightarrow> spec_pieces p = [token_text p]"
  by (cases "p_text p"; cases "p_functionCall p")
     (auto simp: text_or_call_part_def spec_pieces_def token_text_def or_empty_object_def)

lemma text_or_call_pieces:
  "\<forall>p \<in> set ps. text_or_call_part p \<Longrightarrow> concat (map spec_pieces ps) = map token_text ps"
  by (induction ps) (simp_all add: text_or_call_piece)

lemma message_text_by_pieces:
  assumes "\<forall>p \<in> set (message_parts c). text_or_call_part p"
  shows "join '' '' (concat (map spec_pieces (message_parts c))) = content_token_text c"
proof (cases "c_parts c")
  case None
  then show ?thesis by (simp add: message_parts_def filter_parts_def content_token_text_def)
next
  case (Some ps)
  with assms have "\<forall>p \<in> set ps. text_or_call_part p"
    by (simp add: message_parts_def filter_parts_def)
  then have "concat (map spec_pieces ps) = map token_text ps" by (rule text_or_call_pieces)
  with Some show ?thesis by (simp add: message_parts_def filter_parts_def content_token_text_def)
qed

lemma totalText_by_pieces:
  assumes "\<forall>c \<in> set (contentsArr req). \<forall>p \<in> set (message_parts c). text_or_call_part p"
  shows "concat (map (\<lambda>c. join '' '' (concat (map spec_pieces (message_parts c)))) (contentsArr req))
         = totalText req"
proof -
  have eq: "map (\<lambda>c. join '' '' (concat (map spec_pieces (message_parts c)))) (contentsArr req)
            = map content_token_text (contentsArr req)"
    using assms by (intro map_cong refl message_text_by_pieces) blast
  show ?thesis unfolding totalText_def by (rule arg_cong [OF eq])
qed

lemma text_request_counts:
  assumes "length t = 8"
  shows "countTokens g (text_request t) = 2 \<and> Anthropic_countTokens a (text_request t) = 2"
proof -
  from assms have "t \<noteq> []" by auto
  with assms show ?thesis
    by (simp add: countTokens_def Anthropic_countTokens_def totalText_def text_request_def
        contentsArr_def content_token_text_def token_text_def text_part_def ceil_quarter_def)
qed

lemma empty_request_counts:
  "countTokens g empty_request = 0 \<and> Anthropic_countTokens a empty_request = 0"
  by (simp add: countTokens_def Anthropic_countTokens_def totalText_def empty_request_def
      contentsArr_def ceil_quarter_def)

text \<open>
  C6, as the specification states it, fails in two ways. For two messages with the
  texts \<^verbatim>\<open>abcd\<close> and \<^verbatim>\<open>efgh\<close> both adapters count 8 characters and return 2, since
  nothing separates one message from the next, while the space-separated concatenation
  has 9 characters and gives 3. For a request whose only part is a function response
  both adapters return 1, while the stringified payload of the response gives 12.
\<close>

theorem countTokens_spec_counterexample:
  "countTokens gemma two_messages = 2
   \<and> Anthropic_countTokens claude two_messages = 2
   \<and> countTokens_spec two_messages = 3
   \<and> countTokens gemma response_only_request = 1
   \<and> Anthropic_countTokens claude response_only_request = 1
   \<and> countTokens_spec response_only_request = 12"
  by code_simp

text \<open>
  C6, amended. For every request whose parts are text parts with text that is not empty
  or function-call parts, \<^verbatim>\<open>countTokens\<close> of either adapter returns \<open>ceil (n / 4)\<close>,
  where \<open>n\<close> is the character count of the texts of the messages put one after the
  other without a separator, the text of a message being its text parts and the
  stringified form of its function-call payloads joined by single spaces. In particular
  a single text part of 8 characters gives 2 and a request without contents gives 0.
\<close>

theorem countTokens_joins_within_messages:
  "((\<forall>c \<in> set (contentsArr req). \<forall>p \<in> set (message_parts c). text_or_call_part p) \<longrightarrow>
      countTokens g req = countTokens_by_message req
      \<and> Anthropic_countTokens a req = countTokens_by_message req)
   \<and> (length t = 8 \<longrightarrow>
        countTokens g (text_request t) = 2 \<and> Anthropic_countTokens a (text_request t) = 2)
   \<and> countTokens g empty_request = 0
   \<and> Anthropic_countTokens a empty_request = 0"
  using totalText_by_pieces [of req] text_request_counts [of t g a] empty_request_counts [of g a]
  by (simp add: countTokens_def Anthropic_countTokens_def countTokens_by_message_def)

lemma call_conversation_parts:
  "\<forall>c \<in> set (contentsArr call_conversation). \<forall>p \<in> set (message_parts c). text_or_call_part p"
  by (simp add: call_conversation_def contentsArr_def message_parts_def filter_parts_def
      text_or_call_part_def text_part_def functionCall_part_def weather_call_def)

lemma two_messages_parts:
  "\<forall>c \<in> set (contentsArr two_messages). \<forall>p \<in> set (message_parts c). text_or_call_part p"
  by (simp add: two_messages_def contentsArr_def message_parts_def filter_parts_def
      text_or_call_part_def text_part_def)

lemma by_message_values:
  "countTokens_by_message call_conversation = 19 \<and> countTokens_by_message two_messages = 2"
  by code_simp

theorem countTokens_joins_within_messages_witness:
  "countTokens gemma call_conversation = 19
   \<and> Anthropic_countTokens claude call_conversation = 19
   \<and> countTokens gemma two_messages = 2
   \<and> Anthropic_countTokens claude two_messages = 2
   \<and> length ''abcdefgh'' = 8
   \<and> countTokens gemma (text_request ''abcdefgh'') = 2
   \<and> Anthropic_countTokens claude (text_request ''abcdefgh'') = 2"
  using countTokens_joins_within_messages [of call_conversation gemma claude "''abcdefgh''"]
        countTokens_joins_within_messages [of two_messages gemma claude "''abcdefgh''"]
        call_conversation_parts two_messages_parts by_message_values
  by simp

section \<open>The tool-support flag\<close>

lemma perform_keeps_disabled: "\<not> toolsSupported g \<Longrightarrow> \<not> toolsSupported (perform parse g op)"
  by (cases op)
     (auto simp: generateContent_def generateContentStream_def consume_def Let_def
           split: sum.splits)

text \<open>
  C3. For every sequence of operations on one adapter, the tool-support flag only goes
  from enabled to disabled: an adapter whose flag is off still has it off after any
  sequence of calls of \<^verbatim>\<open>generateContent\<close>, \<^verbatim>\<open>generateContentStream\<close>,
  \<^verbatim>\<open>countTokens\<close> and \<^verbatim>\<open>embedContent\<close>, whatever the backend answers and whatever
  \<^verbatim>\<open>JSON.parse\<close> returns.
\<close>

theorem toolsSupported_never_reenabled:
  "\<not> toolsSupported g \<Longrightarrow> \<not> toolsSupported (run parse g ops)"
proof (induction ops arbitrary: g)
  case Nil
  then show ?case by simp
next
  case (Cons op ops)
  from Cons.prems have "\<not> toolsSupported (perform parse g op)" by (rule perform_keeps_disabled)
  then have "\<not> toolsSupported (run parse (perform parse g op) ops)" by (rule Cons.IH)
  then show ?case by simp
qed

text \<open>An adapter that a rejection has disabled stays disabled through four more calls.\<close>

lemma gemma_disabled_by_rejection:
  "\<not> toolsSupported (perform parse_foo_call gemma (GenerateContent tool_conversation rejecting_chat))"
  by code_simp

theorem toolsSupported_never_reenabled_witness:
  "toolsSupported gemma
   \<and> \<not> toolsSupported (perform parse_foo_call gemma (GenerateContent tool_conversation rejecting_chat))
   \<and> \<not> toolsSupported
         (run parse_foo_call (perform parse_foo_call gemma (GenerateContent tool_conversation rejecting_chat))
            [GenerateContentStream tool_conversation rejecting_stream,
             CountTokens two_messages,
             EmbedContent two_messages unit_embeddings,
             GenerateContent two_messages rejecting_chat])"
proof -
  have enabled: "toolsSupported gemma"
    by (simp add: gemma_def new_OllamaContentGenerator_def)
  have disabled: "\<not> toolsSupported (perform parse_foo_call gemma (GenerateContent tool_conversation rejecting_chat))"
    by (rule gemma_disabled_by_rejection)
  from toolsSupported_never_reenabled [OF disabled] enabled disabled
  show ?thesis by blast
qed

section \<open>Tool declarations in the translated payload\<close>

lemma request_declarations_tools: "request_declarations req \<noteq> [] \<Longrightarrow> request_tools req \<noteq> []"
  by (auto simp: request_declarations_def)

lemma ollama_tools_iff:
  "op_tools (mapGeminiParamsToOllama enabled req) \<noteq> None
   \<longleftrightarrow> enabled \<and> request_declarations req \<noteq> []"
  using request_declarations_tools[of req]
  by (auto simp: mapGeminiParamsToOllama_def ollamaTools_def)

lemma anthropic_tools_iff:
  "ap_tools (mapGeminiParamsToAnthropic req) \<noteq> None \<longleftrightarrow> request_declarations req \<noteq> []"
  using request_declarations_tools[of req]
  by (auto simp: mapGeminiParamsToAnthropic_def anthropicTools_def)

lemma tool_conversation_declarations: "request_declarations tool_conversation \<noteq> []"
  by (simp add: request_declarations_def request_tools_def tool_conversation_def
      tool_declarations_def)

text \<open>
  C4. For every request and every adapter, in either tool-support state, the translated
  payload includes tool declarations if and only if the tool-support state of the
  adapter is Enabled and the request has at least one function declaration.
\<close>

theorem tools_included_iff_enabled_and_declared:
  "payload_has_tools ad req
   \<longleftrightarrow> toolSupportState_of ad = Enabled \<and> request_declarations req \<noteq> []"
  by (cases ad) (simp_all add: ollama_tools_iff anthropic_tools_iff del: not_None_eq)

theorem tools_included_iff_enabled_and_declared_witness:
  "payload_has_tools (OllamaAdapter gemma) tool_conversation
   \<and> \<not> payload_has_tools (OllamaAdapter (gemma\<lparr>toolsSupported := False\<rparr>)) tool_conversation
   \<and> payload_has_tools (AnthropicAdapter claude) tool_conversation
   \<and> \<not> payload_has_tools (OllamaAdapter gemma) two_messages
   \<and> \<not> payload_has_tools (AnthropicAdapter claude) two_messages"
proof -
  have none: "request_declarations two_messages = []"
    by (simp add: request_declarations_def request_tools_def two_messages_def)
  have enabled: "toolsSupported gemma"
    by (simp add: gemma_def new_OllamaContentGenerator_def)
  show ?thesis
    using tools_included_iff_enabled_and_declared [of "OllamaAdapter gemma" tool_conversation]
          tools_included_iff_enabled_and_declared
            [of "OllamaAdapter (gemma\<lparr>toolsSupported := False\<rparr>)" tool_conversation]
          tools_included_iff_enabled_and_declared [of "AnthropicAdapter claude" tool_conversation]
          tools_included_iff_enabled_and_declared [of "OllamaAdapter gemma" two_messages]
          tools_included_iff_enabled_and_declared [of "AnthropicAdapter claude" two_messages]
          tool_conversation_declarations none enabled
    by simp
qed

section \<open>The output limit of the Anthropic payload\<close>

text \<open>
  C9. For every request, the translation of the Anthropic adapter has \<^verbatim>\<open>max_tokens\<close>
  8192, and so has every payload that \<^verbatim>\<open>generateContent\<close> and
  \<^verbatim>\<open>generateContentStream\<close> send, whatever the request holds.
\<close>

theorem anthropic_max_tokens:
  "ap_max_tokens (mapGeminiParamsToAnthropic req) = 8192
   \<and> (\<forall>q \<in> set (ao_sent (Anthropic_generateContent g env fault store create req)).
         mq_max_tokens q = 8192)
   \<and> (\<forall>q \<in> set (ast_sent (Anthropic_generateContentStream g env fault store stream req)).
         mq_max_tokens q = 8192)"
  by (auto simp: mapGeminiParamsToAnthropic_def Anthropic_generateContent_def
      Anthropic_generateContentStream_def messages_request_def Let_def
      split: sum.splits prod.splits)

lemma greeting_sent:
  "length (ao_sent (Anthropic_generateContent claude (Some ''sk-ant-test'') None no_store
             greeting_message tool_conversation)) = 1
   \<and> length (ast_sent (Anthropic_generateContentStream claude (Some ''sk-ant-test'') None no_store
             greeting_stream tool_conversation)) = 1"
  by code_simp

theorem anthropic_max_tokens_witness:
  "map mq_max_tokens (ao_sent (Anthropic_generateContent claude (Some ''sk-ant-test'') None
       no_store greeting_message tool_conversation)) = [8192]
   \<and> map mq_max_tokens (ast_sent (Anthropic_generateContentStream claude (Some ''sk-ant-test'')
       None no_store greeting_stream tool_conversation)) = [8192]"
proof -
  let ?a = "ao_sent (Anthropic_generateContent claude (Some ''sk-ant-test'') None no_store
             greeting_message tool_conversation)"
  let ?b = "ast_sent (Anthropic_generateContentStream claude (Some ''sk-ant-test'') None no_store
             greeting_stream tool_conversation)"
  from greeting_sent obtain x y where xy: "?a = [x]" "?b = [y]"
    by (auto simp: length_Suc_conv)
  from anthropic_max_tokens [of tool_conversation claude "Some ''sk-ant-test''" None no_store
      greeting_message greeting_stream] xy
  show ?thesis by simp
qed

section \<open>Embeddings\<close>

text \<open>
  \<^verbatim>\<open>embedContent\<close> of the Anthropic adapter fails for every request, and that of the
  Ollama adapter fails, before the backend is called, when the input it extracts is the
  empty string. Both throw a plain \<^verbatim>\<open>Error\<close>, given here by its message.
\<close>

lemma embedContent_empty_input_fails:
  "Anthropic_embedContent a req = Inl ''Embeddings API is not supported via Anthropic module yet.''
   \<and> (embed_input req = [] \<longrightarrow>
        embedContent g embeddings req = Inl ''No text content for embeddings'')"
  by (simp add: Anthropic_embedContent_def embedContent_def)

text \<open>
  C7. A request whose two parts are function calls has no text, but the input that the
  Ollama adapter extracts from it is the space that joins the two empty texts. The test
  for an empty input lets it pass, the backend is called, and \<^verbatim>\<open>embedContent\<close> returns
  the backend's vector instead of failing. With one such part the input is empty and
  the call fails; the Anthropic adapter fails in both cases.
\<close>

theorem embedContent_textless_parts_reach_backend:
  "embed_input two_calls_request = '' ''
   \<and> embedContent gemma unit_embeddings two_calls_request = Inr [1, 0]
   \<and> embed_input call_only_request = []
   \<and> embedContent gemma unit_embeddings call_only_request
       = Inl ''No text content for embeddings''
   \<and> Anthropic_embedContent claude two_calls_request
       = Inl ''Embeddings API is not supported via Anthropic module yet.''"
  by (simp add: embedContent_def embed_input_def two_calls_request_def call_only_request_def
      parts_text_def functionCall_part_def unit_embeddings_def Anthropic_embedContent_def)

section \<open>The stored API keys\<close>

text \<open>
  C8, as the specification states it, fails: when the delete of a clear fails and
  leaves the store as it is, the clear returns normally, and the load that follows
  returns the key that is still stored.
\<close>

theorem stale_key_after_failed_clear:
  "loadAnthropicApiKey None stored_anthropic_key = Inr (Some ''sk-ant-test'')
   \<and> fst (clearAnthropicApiKey (keychain_locked stored_anthropic_key) stored_anthropic_key) = None
   \<and> loadAnthropicApiKey None
        (snd (clearAnthropicApiKey (keychain_locked stored_anthropic_key) stored_anthropic_key))
       = Inr (Some ''sk-ant-test'')"
  by code_simp

text \<open>
  C8, amended. Failures of the store on read and on delete never reach the caller: for
  every error of the store, loading a key returns \<^verbatim>\<open>null\<close> instead of throwing, and
  clearing returns normally instead of throwing; no load throws; and after a clear
  whose delete did not fail, a load returns \<^verbatim>\<open>null\<close>, whether or not the read fails.
  This holds for the Anthropic entry and for the default entry.
\<close>

theorem credential_failures_do_not_propagate:
  "loadAnthropicApiKey (Some e) store = Inr None
   \<and> loadApiKey (Some e) store = Inr None
   \<and> loadAnthropicApiKey rfault store \<noteq> Inl x
   \<and> loadApiKey rfault store \<noteq> Inl x
   \<and> fst (clearAnthropicApiKey wfault store) = None
   \<and> fst (clearApiKey wfault store) = None
   \<and> loadAnthropicApiKey rfault (snd (clearAnthropicApiKey None store)) = Inr None
   \<and> loadApiKey rfault (snd (clearApiKey None store)) = Inr None"
  by (simp add: loadAnthropicApiKey_def loadApiKey_def clearAnthropicApiKey_def clearApiKey_def
      getCredentials_def deleteCredentials_def stored_key_def
      split: option.split prod.split sum.split)

lemma stored_key_loaded:
  "loadAnthropicApiKey None stored_anthropic_key = Inr (Some ''sk-ant-test'')"
  by code_simp

theorem credential_failures_do_not_propagate_witness:
  "loadAnthropicApiKey None stored_anthropic_key = Inr (Some ''sk-ant-test'')
   \<and> loadAnthropicApiKey (Some ''keychain is locked'') stored_anthropic_key = Inr None
   \<and> fst (clearAnthropicApiKey (keychain_locked stored_anthropic_key) stored_anthropic_key) = None
   \<and> loadAnthropicApiKey None (snd (clearAnthropicApiKey None stored_anthropic_key)) = Inr None"
  using credential_failures_do_not_propagate
          [of "''keychain is locked''" stored_anthropic_key None "[]"
              "keychain_locked stored_anthropic_key"]
        stored_key_loaded
  by simp

section \<open>The retry after a rejection of tools\<close>

text \<open>
  A translation made with the flag off declares no tools and holds neither a tool-result
  message nor a message with tool calls.
\<close>

lemma ollama_turn_disabled:
  "m \<in> set (ollama_turn False c) \<Longrightarrow> m_role m \<noteq> ''tool'' \<and> m_tool_calls m = None"
  by (auto simp: ollama_turn_def Let_def split: if_splits)

lemma ollama_content_messages_disabled:
  "m \<in> set (ollama_content_messages False c) \<Longrightarrow> m_role m \<noteq> ''tool'' \<and> m_tool_calls m = None"
  using ollama_turn_disabled [of m c]
  by (auto simp: ollama_content_messages_def split: if_splits)

lemma ollama_system_messages_plain:
  "m \<in> set (ollama_system_messages req) \<Longrightarrow> m_role m \<noteq> ''tool'' \<and> m_tool_calls m = None"
  by (auto simp: ollama_system_messages_def split: option.splits if_splits)

lemma disabled_translation_tool_free:
  "op_tools (mapGeminiParamsToOllama False req) = None
   \<and> filter (\<lambda>m. m_role m = ''tool'' \<or> m_tool_calls m \<noteq> None)
        (op_messages (mapGeminiParamsToOllama False req)) = []"
proof -
  have "\<not> (m_role m = ''tool'' \<or> m_tool_calls m \<noteq> None)"
    if "m \<in> set (op_messages (mapGeminiParamsToOllama False req))" for m
    using that ollama_system_messages_plain [of m req]
      ollama_content_messages_disabled [of m]
    by (auto simp: mapGeminiParamsToOllama_def)
  then show ?thesis
    by (simp add: filter_empty_conv) (simp add: mapGeminiParamsToOllama_def ollamaTools_def)
qed

text \<open>
  After a rejection of tools by an enabled adapter, both methods turn the flag off and
  call the backend a second time without tools. \<^verbatim>\<open>generateContentStream\<close> sends the
  request translated again with the flag off; \<^verbatim>\<open>generateContent\<close> sends the messages
  of the first translation again.
\<close>

lemma generateContentStream_retry_retranslates:
  assumes "toolsSupported g"
    and "chat 0 (chat_request g (op_messages (mapGeminiParamsToOllama True req))
                   (op_tools (mapGeminiParamsToOllama True req))
                   (op_options (mapGeminiParamsToOllama True req)) True) = Inl e"
    and "isToolsNotSupportedError e"
  shows "st_sent (generateContentStream parse g chat req) =
           [chat_request g (op_messages (mapGeminiParamsToOllama True req))
              (op_tools (mapGeminiParamsToOllama True req))
              (op_options (mapGeminiParamsToOllama True req)) True,
            chat_request g (op_messages (mapGeminiParamsToOllama False req)) None
              (op_options (mapGeminiParamsToOllama False req)) True]
         \<and> \<not> toolsSupported (st_state (generateContentStream parse g chat req))"
  using assms
  by (simp add: generateContentStream_def Let_def consume_def split: sum.split)

lemma generateContent_retry_reuses:
  assumes "toolsSupported g"
    and "chat 0 (chat_request g (op_messages (mapGeminiParamsToOllama True req))
                   (op_tools (mapGeminiParamsToOllama True req))
                   (op_options (mapGeminiParamsToOllama True req)) False) = Inl e"
    and "isToolsNotSupportedError e"
  shows "out_sent (generateContent g chat req) =
           [chat_request g (op_messages (mapGeminiParamsToOllama True req))
              (op_tools (mapGeminiParamsToOllama True req))
              (op_options (mapGeminiParamsToOllama True req)) False,
            chat_request g (op_messages (mapGeminiParamsToOllama True req)) None
              (op_options (mapGeminiParamsToOllama True req)) False]
         \<and> \<not> toolsSupported (out_state (generateContent g chat req))"
  using assms
  by (simp add: generateContent_def Let_def split: sum.split)

text \<open>
  Any other failure, and a rejection of tools met with the flag already off, is thrown
  after one call, wrapped in the method's message; no operation calls the backend more
  than twice.
\<close>

lemma no_retry_otherwise:
  assumes "chat 0 (chat_request g (op_messages (mapGeminiParamsToOllama (toolsSupported g) req))
                   (op_tools (mapGeminiParamsToOllama (toolsSupported g) req))
                   (op_options (mapGeminiParamsToOllama (toolsSupported g) req)) False) = Inl e"
    and "\<not> (isToolsNotSupportedError e \<and> toolsSupported g)"
  shows "length (out_sent (generateContent g chat req)) = 1
         \<and> out_result (generateContent g chat req) = Inl (generateContent_failed e)
         \<and> out_state (generateContent g chat req) = g"
  using assms
  by (auto simp add: generateContent_def Let_def split: sum.split)

lemma no_stream_retry_otherwise:
  assumes "chat 0 (chat_request g (op_messages (mapGeminiParamsToOllama (toolsSupported g) req))
                   (op_tools (mapGeminiParamsToOllama (toolsSupported g) req))
                   (op_options (mapGeminiParamsToOllama (toolsSupported g) req)) True) = Inl e"
    and "\<not> (isToolsNotSupportedError e \<and> toolsSupported g)"
  shows "length (st_sent (generateContentStream parse g chat req)) = 1
         \<and> st_error (generateContentStream parse g chat req) = Some (generateContentStream_failed e)
         \<and> st_yielded (generateContentStream parse g chat req) = []
         \<and> st_state (generateContentStream parse g chat req) = g"
  using assms
  by (auto simp add: generateContentStream_def Let_def split: sum.split)

lemma at_most_one_retry:
  "length (out_sent (generateContent g chat req)) \<le> 2
   \<and> length (st_sent (generateContentStream parse g chat' req)) \<le> 2"
  by (simp add: generateContent_def generateContentStream_def consume_def Let_def
      split: sum.split)

text \<open>
  C1. For a conversation that holds a call of a tool and its result, on a model that
  rejects tools: \<^verbatim>\<open>generateContent\<close> turns the flag off and retries once without tool
  declarations, but the retried payload is not translated again. It carries the
  messages of the first payload, among them the assistant message with the tool call
  and the tool-result message, where the translation with the flag off has the user
  message only. \<^verbatim>\<open>generateContentStream\<close>, on the same request, does send that
  tool-free translation on its retry.
\<close>

theorem generateContent_retry_keeps_tool_messages:
  "map (\<lambda>q. map m_role (cq_messages q))
       (out_sent (generateContent gemma rejecting_chat tool_conversation))
     = [[''user'', ''assistant'', ''tool''], [''user'', ''assistant'', ''tool'']]
   \<and> map cq_tools (out_sent (generateContent gemma rejecting_chat tool_conversation)) ! 1 = None
   \<and> \<not> toolsSupported (out_state (generateContent gemma rejecting_chat tool_conversation))
   \<and> map (\<lambda>q. map m_role (cq_messages q))
         (st_sent (generateContentStream parse gemma rejecting_stream tool_conversation))
       = [[''user'', ''assistant'', ''tool''], [''user'']]
   \<and> map m_role (op_messages (mapGeminiParamsToOllama False tool_conversation)) = [''user'']"
  by code_simp

section \<open>The finish marker of a stream\<close>

text \<open>
  The Ollama generator yields for every final chunk and marks what it yields with
  \<^verbatim>\<open>STOP\<close>: when the backend's stream ends with its final chunk, the last response
  carries the marker.
\<close>

lemma stream_step_done:
  "cr_done chunk \<Longrightarrow> \<exists>s' r. stream_step parse s chunk = (s', Some r) \<and> g_finishReason r = Some ''STOP''"
  by (simp add: stream_step_def Let_def split: prod.split)

lemma stream_loop_last_marked:
  "chunks \<noteq> [] \<Longrightarrow> cr_done (last chunks) \<Longrightarrow>
   stream_loop parse s chunks \<noteq> [] \<and> g_finishReason (last (stream_loop parse s chunks)) = Some ''STOP''"
proof (induction chunks arbitrary: s)
  case Nil
  then show ?case by simp
next
  case (Cons chunk chunks)
  show ?case
  proof (cases "chunks = []")
    case True
    with Cons.prems have "cr_done chunk" by simp
    from stream_step_done [OF this, of parse s] True show ?thesis by auto
  next
    case False
    with Cons.prems have d: "cr_done (last chunks)" by simp
    obtain s' y where step: "stream_step parse s chunk = (s', y)" by (cases "stream_step parse s chunk")
    from Cons.IH [OF False d, of s'] step show ?thesis
      by (cases y) simp_all
  qed
qed

text \<open>No response that the Anthropic generator yields has a finish reason.\<close>

lemma event_loop_unmarked:
  "event_loop s evs = (s', rs) \<Longrightarrow> r \<in> set rs \<Longrightarrow> g_finishReason r = None"
proof (induction evs arbitrary: s s' rs)
  case Nil
  then show ?case by simp
next
  case (Cons ev evs)
  obtain s2 rs2 where rest: "event_loop (on_event s ev) evs = (s2, rs2)"
    by (cases "event_loop (on_event s ev) evs")
  with Cons.prems have "r = partial_response (on_event s ev) \<or> r \<in> set rs2"
    by (auto simp: Let_def)
  then show ?case
  proof
    assume "r = partial_response (on_event s ev)"
    then show ?thesis by (simp add: partial_response_def)
  next
    assume "r \<in> set rs2"
    with rest show ?thesis by (rule Cons.IH)
  qed
qed

lemma anthropic_never_marks:
  "r \<in> set (ast_yielded (Anthropic_generateContentStream g env fault store stream req))
   \<Longrightarrow> g_finishReason r = None"
  by (auto simp: Anthropic_generateContentStream_def anthropic_consume_def final_responses_def
      Let_def split: sum.splits prod.splits if_splits dest: event_loop_unmarked)

text \<open>
  C5. The stream of the Anthropic adapter for a greeting, fully consumed and ending
  without error, yields four responses, none of which carries a finish reason, the last
  one included; the Ollama adapter marks the last response of its stream with
  \<^verbatim>\<open>STOP\<close>.
\<close>

theorem anthropic_stream_without_finish_marker:
  "map g_finishReason
     (ast_yielded (Anthropic_generateContentStream claude (Some ''sk-ant-test'') None no_store
        greeting_stream two_messages))
     = [None, None, None, None]
   \<and> g_finishReason
        (last (ast_yielded (Anthropic_generateContentStream claude (Some ''sk-ant-test'') None
           no_store greeting_stream two_messages))) = None
   \<and> ast_error (Anthropic_generateContentStream claude (Some ''sk-ant-test'') None no_store
        greeting_stream two_messages) = None
   \<and> map g_finishReason
        (st_yielded (generateContentStream parse gemma rejecting_stream two_messages))
       = [Some ''STOP'']"
  by code_simp


section \<open>Recovery of a tool call emitted as text\<close>

text \<open>
  The string methods of the test on the accumulator, in terms of the text itself: a
  text starts with a prefix when it is the prefix followed by a rest, it includes a text
  that occurs somewhere in it, and its trimmed form begins with a character that is not
  white space when that character is the first one after leading white space.
\<close>

lemma startsWith_iff: "startsWith s p \<longleftrightarrow> (\<exists>v. s = p @ v)"
proof
  assume "startsWith s p"
  then have "s = p @ drop (length p) s"
    by (metis startsWith_def append_take_drop_id)
  then show "\<exists>v. s = p @ v" ..
next
  assume "\<exists>v. s = p @ v"
  then show "startsWith s p" by (auto simp: startsWith_def)
qed

lemma js_includes_iff: "js_includes s sub \<longleftrightarrow> (\<exists>u v. s = u @ sub @ v)"
proof (induction s)
  case Nil
  show ?case by auto
next
  case (Cons c cs)
  show ?case
  proof
    assume "js_includes (c # cs) sub"
    then consider "startsWith (c # cs) sub" | "js_includes cs sub" by auto
    then show "\<exists>u v. c # cs = u @ sub @ v"
    proof cases
      case 1
      then obtain v where "c # cs = sub @ v" by (auto simp: startsWith_iff)
      then have "c # cs = [] @ sub @ v" by simp
      then show ?thesis by blast
    next
      case 2
      with Cons.IH obtain u v where "cs = u @ sub @ v" by auto
      then have "c # cs = (c # u) @ sub @ v" by simp
      then show ?thesis by blast
    qed
  next
    assume "\<exists>u v. c # cs = u @ sub @ v"
    then obtain u v where eq: "c # cs = u @ sub @ v" by auto
    show "js_includes (c # cs) sub"
    proof (cases u)
      case Nil
      with eq have "startsWith (c # cs) sub" by (auto simp: startsWith_iff)
      then show ?thesis by simp
    next
      case (Cons d u')
      with eq have "cs = u' @ sub @ v" by simp
      with Cons.IH have "js_includes cs sub" by auto
      then show ?thesis by simp
    qed
  qed
qed

lemma trim_of_blank: "dropWhile js_is_space s = [] \<Longrightarrow> trim s = []"
  by (simp add: trim_def del: dropWhile_eq_Nil_conv)

lemma trim_head:
  assumes "dropWhile js_is_space s = x # xs"
  shows "\<exists>ys. trim s = x # ys"
proof -
  from assms have nx: "\<not> js_is_space x" by (metis hd_dropWhile list.sel(1) list.distinct(1))
  have "\<exists>zs. dropWhile js_is_space (rev xs @ [x]) = zs @ [x]"
    using nx by (cases "\<forall>y \<in> set (rev xs). js_is_space y") (auto simp: dropWhile_append)
  then obtain zs where "dropWhile js_is_space (rev (x # xs)) = zs @ [x]" by auto
  with assms have "trim s = x # rev zs" by (simp add: trim_def)
  then show ?thesis ..
qed

lemma trim_begins_iff:
  assumes "\<not> js_is_space c"
  shows "startsWith (trim s) [c]
         \<longleftrightarrow> (\<exists>w rest. s = w @ c # rest \<and> (\<forall>x \<in> set w. js_is_space x))"
proof
  assume st: "startsWith (trim s) [c]"
  show "\<exists>w rest. s = w @ c # rest \<and> (\<forall>x \<in> set w. js_is_space x)"
  proof (cases "dropWhile js_is_space s")
    case Nil
    then have "trim s = []" by (rule trim_of_blank)
    with st show ?thesis by (simp add: startsWith_def)
  next
    case (Cons x xs)
    then obtain ys where "trim s = x # ys" using trim_head by blast
    with st have "x = c" by (simp add: startsWith_def)
    with Cons have "s = takeWhile js_is_space s @ c # xs"
      by (metis takeWhile_dropWhile_id)
    moreover have "\<forall>y \<in> set (takeWhile js_is_space s). js_is_space y"
      by (auto dest: set_takeWhileD)
    ultimately show ?thesis by blast
  qed
next
  assume "\<exists>w rest. s = w @ c # rest \<and> (\<forall>x \<in> set w. js_is_space x)"
  then obtain w rest where s: "s = w @ c # rest" and w: "\<forall>x \<in> set w. js_is_space x" by auto
  from w assms have "dropWhile js_is_space s = c # rest"
    by (simp add: s dropWhile_append)
  then obtain ys where "trim s = c # ys" using trim_head by blast
  then show "startsWith (trim s) [c]" by (simp add: startsWith_def)
qed

lemma looks_like_json_spaces:
  \<open>looks_like_json acc
   \<longleftrightarrow> (\<exists>w rest. acc = w @ CHR ''{'' # rest \<and> (\<forall>x \<in> set w. js_is_space x))
       \<and> (\<exists>u v. acc = u @ ''"name"'' @ v)\<close>
proof -
  have "\<not> js_is_space (CHR ''{'')" by (simp add: js_is_space_def)
  then have brace: "startsWith (trim acc) ''{''
      \<longleftrightarrow> (\<exists>w rest. acc = w @ CHR ''{'' # rest \<and> (\<forall>x \<in> set w. js_is_space x))"
    by (rule trim_begins_iff)
  show ?thesis by (simp only: looks_like_json_def brace js_includes_iff)
qed

lemma js_is_space_iff: "js_is_space x \<longleftrightarrow> x \<in> white_space"
  by (auto simp: js_is_space_def)

lemma dropWhile_blank_prefix:
  assumes "\<forall>x \<in> set w. P x" and "m \<noteq> []" and "\<not> P (hd m)"
  shows "dropWhile P (w @ m) = m"
proof -
  from assms(2) obtain a as where "m = a # as" by (cases m) auto
  with assms show ?thesis by (simp add: dropWhile_append)
qed

lemma trim_middle:
  assumes "s = w1 @ m @ w2"
    and "\<forall>x \<in> set w1. js_is_space x" and "\<forall>x \<in> set w2. js_is_space x"
    and "m \<noteq> []" and "\<not> js_is_space (hd m)" and "\<not> js_is_space (last m)"
  shows "trim s = m"
proof -
  have "dropWhile js_is_space s = m @ w2"
    using dropWhile_blank_prefix [of w1 js_is_space "m @ w2"] assms by simp
  moreover have "dropWhile js_is_space (rev (m @ w2)) = rev m"
    using dropWhile_blank_prefix [of "rev w2" js_is_space "rev m"] assms by (simp add: hd_rev)
  ultimately show ?thesis by (simp add: trim_def)
qed

lemma looks_like_json_iff:
  \<open>looks_like_json acc
   \<longleftrightarrow> (\<exists>w rest. acc = w @ CHR ''{'' # rest \<and> (\<forall>x \<in> set w. x \<in> white_space))
       \<and> (\<exists>u v. acc = u @ ''"name"'' @ v)\<close>
  by (simp only: looks_like_json_spaces js_is_space_iff)

text \<open>The three steps of the recovery: classifying, withholding, parsing at the end.\<close>

lemma tool_call_parts_no_text: "text_parts_of (tool_call_parts chunk) = []"
  by (cases "chunk_tool_calls chunk")
     (auto simp: text_parts_of_def tool_call_parts_def functionCall_part_def filter_empty_conv)

lemma stream_step_classifies:
  "chunk_content chunk \<noteq> [] \<Longrightarrow>
   ss_isPotentiallyJson (fst (stream_step parse s chunk))
     = (ss_isPotentiallyJson s \<or> looks_like_json (ss_accumulatedText s @ chunk_content chunk))"
  by (simp add: stream_step_def accumulate_def update_usage_def finish_buffer_def Let_def
      split: prod.split option.split)

lemma stream_step_withholds:
  assumes "chunk_content chunk \<noteq> []" and "\<not> cr_done chunk"
    and "ss_isPotentiallyJson (fst (stream_step parse s chunk))"
  shows "ss_accumulatedText (fst (stream_step parse s chunk))
           = ss_accumulatedText s @ chunk_content chunk
         \<and> text_parts_of (yielded_parts (snd (stream_step parse s chunk))) = []"
proof -
  from assms(1,3)
  have "ss_isPotentiallyJson s \<or> looks_like_json (ss_accumulatedText s @ chunk_content chunk)"
    by (simp add: stream_step_classifies)
  with assms(1,2) show ?thesis
    using tool_call_parts_no_text [of chunk]
    by (auto simp add: stream_step_def accumulate_def update_usage_def finish_buffer_def Let_def
        yielded_parts_def)
qed

lemma stream_step_parses_at_completion:
  assumes "cr_done final" and "chunk_content final = []" and "ss_isPotentiallyJson b"
    and "ss_accumulatedText b = w1 @ m @ w2"
    and "\<forall>x \<in> set w1. x \<in> white_space" and "\<forall>x \<in> set w2. x \<in> white_space"
    and "m \<noteq> []" and "hd m \<notin> white_space" and "last m \<notin> white_space"
    and "parse m = Some parsed"
    and "truthy (get_prop parsed ''name'')" and "truthy (get_prop parsed ''arguments'')"
  shows "yielded_parts (snd (stream_step parse b final))
           = tool_call_parts final
             @ [functionCall_part (JObj [(''name'', the (get_prop parsed ''name'')),
                                         (''args'', the (get_prop parsed ''arguments''))])]
         \<and> ss_accumulatedText (fst (stream_step parse b final)) = []"
proof -
  have "trim (ss_accumulatedText b) = m"
    using trim_middle [of "ss_accumulatedText b" w1 m w2] assms(4-9)
    by (simp only: js_is_space_iff) blast
  with assms show ?thesis
    by (simp add: stream_step_def accumulate_def update_usage_def finish_buffer_def Let_def
        yielded_parts_def rescue_def)
qed

text \<open>
  The run of the three fragments, for every parser that gives the value of
  \<^verbatim>\<open>JSON.parse\<close> for the text they add up to.
\<close>

lemma trimmed_foo_call:
  \<open>trim ''{"name":"foo","arguments":{}}'' = ''{"name":"foo","arguments":{}}''
   \<and> trim '' {"name":"foo","arguments":{}}'' = ''{"name":"foo","arguments":{}}''\<close>
  by code_simp

lemma joined_json_chunks_rescued:
  assumes \<open>parse ''{"name":"foo","arguments":{}}''
             = Some (JObj [(''name'', JStr ''foo''), (''arguments'', JObj [])])\<close>
  shows "all_parts (stream_loop parse initial_streamState joined_json_chunks)
           = [functionCall_part (JObj [(''name'', JStr ''foo''), (''args'', JObj [])])]"
  using assms trimmed_foo_call
  by (simp add: all_parts_def joined_json_chunks_def stream_step_def accumulate_def
      update_usage_def finish_buffer_def rescue_def Let_def initial_streamState_def
      text_chunk_def end_of_stream_def chunk_content_def chunk_tool_calls_def
      tool_call_parts_def looks_like_json_def trim_def js_is_space_def startsWith_def
      count_update_def)

text \<open>
  C2, amended. Feeding the text chunks \<^verbatim>\<open>{"name"\<close>, then \<^verbatim>\<open>:"foo",\<close>, then
  \<^verbatim>\<open>"arguments":{}}\<close>, then the end of the stream, yields no text part and exactly one
  function-call part, named foo, with empty arguments, given that \<^verbatim>\<open>JSON.parse\<close>
  reads the text they add up to as the object it denotes. After each text fragment the
  accumulator is potentially JSON if it was so before, or if a brace is its first
  character after leading white space and the quoted word name occurs in it; while it
  is, the fragment is kept in the accumulator and no text part is yielded; and at the
  final chunk an accumulator that is not blank and whose text between leading and
  trailing white space \<^verbatim>\<open>JSON.parse\<close> reads as a value with a truthy name and truthy
  arguments is yielded as one function-call part and emptied.
\<close>

theorem hallucinated_call_rescued:
  \<open>(parse ''{"name":"foo","arguments":{}}''
      = Some (JObj [(''name'', JStr ''foo''), (''arguments'', JObj [])]) \<longrightarrow>
    all_parts (stream_loop parse initial_streamState joined_json_chunks)
      = [functionCall_part (JObj [(''name'', JStr ''foo''), (''args'', JObj [])])])
   \<and> (chunk_content chunk \<noteq> [] \<longrightarrow>
        ss_isPotentiallyJson (fst (stream_step parse s chunk))
          = (ss_isPotentiallyJson s
             \<or> ((\<exists>w rest. ss_accumulatedText s @ chunk_content chunk = w @ CHR ''{'' # rest
                    \<and> (\<forall>x \<in> set w. x \<in> white_space))
                \<and> (\<exists>u v. ss_accumulatedText s @ chunk_content chunk = u @ ''"name"'' @ v))))
   \<and> (chunk_content chunk \<noteq> [] \<and> \<not> cr_done chunk
        \<and> ss_isPotentiallyJson (fst (stream_step parse s chunk)) \<longrightarrow>
        ss_accumulatedText (fst (stream_step parse s chunk))
          = ss_accumulatedText s @ chunk_content chunk
        \<and> text_parts_of (yielded_parts (snd (stream_step parse s chunk))) = [])
   \<and> (cr_done final \<and> chunk_content final = [] \<and> ss_isPotentiallyJson b
        \<and> ss_accumulatedText b = w1 @ m @ w2
        \<and> (\<forall>x \<in> set w1. x \<in> white_space) \<and> (\<forall>x \<in> set w2. x \<in> white_space)
        \<and> m \<noteq> [] \<and> hd m \<notin> white_space \<and> last m \<notin> white_space
        \<and> parse m = Some parsed
        \<and> truthy (get_prop parsed ''name'') \<and> truthy (get_prop parsed ''arguments'') \<longrightarrow>
        yielded_parts (snd (stream_step parse b final))
          = tool_call_parts final
            @ [functionCall_part (JObj [(''name'', the (get_prop parsed ''name'')),
                                        (''args'', the (get_prop parsed ''arguments''))])]
        \<and> ss_accumulatedText (fst (stream_step parse b final)) = [])\<close>
  using joined_json_chunks_rescued [of parse] stream_step_classifies [of chunk parse s]
    stream_step_withholds [of chunk parse s]
    stream_step_parses_at_completion [of final b w1 m w2 parse parsed]
  by (simp only: looks_like_json_iff) blast

text \<open>
  An instance: the parser gives the object for the text of the example; a fragment that
  begins with a space, a brace and the quoted word name is classified and withheld; the
  buffered text of the example, with a space before and after it, is parsed at the final
  chunk.
\<close>

lemma indented_fragment:
  \<open>chunk_content (text_chunk '' {"name"'') \<noteq> [] \<and> \<not> cr_done (text_chunk '' {"name"'')
   \<and> ss_accumulatedText initial_streamState @ chunk_content (text_chunk '' {"name"'')
       = '' {"name"''\<close>
  by code_simp

lemma buffered_call_parses:
  \<open>cr_done end_of_stream \<and> chunk_content end_of_stream = []
   \<and> ss_isPotentiallyJson buffered_call
   \<and> ss_accumulatedText buffered_call = '' '' @ ''{"name":"foo","arguments":{}}'' @ '' ''
   \<and> truthy (get_prop (JObj [(''name'', JStr ''foo''), (''arguments'', JObj [])]) ''name'')
   \<and> truthy (get_prop (JObj [(''name'', JStr ''foo''), (''arguments'', JObj [])]) ''arguments'')
   \<and> tool_call_parts end_of_stream = []
   \<and> parse_foo_call ''{"name":"foo","arguments":{}}''
       = Some (JObj [(''name'', JStr ''foo''), (''arguments'', JObj [])])\<close>
  by code_simp

theorem hallucinated_call_rescued_witness:
  \<open>parse_foo_call ''{"name":"foo","arguments":{}}''
     = Some (JObj [(''name'', JStr ''foo''), (''arguments'', JObj [])])
   \<and> all_parts (stream_loop parse_foo_call initial_streamState joined_json_chunks)
       = [functionCall_part (JObj [(''name'', JStr ''foo''), (''args'', JObj [])])]
   \<and> chunk_content (text_chunk '' {"name"'') \<noteq> [] \<and> \<not> cr_done (text_chunk '' {"name"'')
   \<and> ss_isPotentiallyJson
        (fst (stream_step parse_foo_call initial_streamState (text_chunk '' {"name"'')))
   \<and> ss_accumulatedText
        (fst (stream_step parse_foo_call initial_streamState (text_chunk '' {"name"'')))
       = '' {"name"''
   \<and> text_parts_of (yielded_parts
        (snd (stream_step parse_foo_call initial_streamState (text_chunk '' {"name"''))))
       = []
   \<and> cr_done end_of_stream \<and> chunk_content end_of_stream = []
   \<and> ss_isPotentiallyJson buffered_call
   \<and> ss_accumulatedText buffered_call = '' '' @ ''{"name":"foo","arguments":{}}'' @ '' ''
   \<and> yielded_parts (snd (stream_step parse_foo_call buffered_call end_of_stream))
       = [functionCall_part (JObj [(''name'', JStr ''foo''), (''args'', JObj [])])]
   \<and> ss_accumulatedText (fst (stream_step parse_foo_call buffered_call end_of_stream)) = []\<close>
proof -
  have brace: \<open>\<exists>w rest. '' {"name"'' = w @ CHR ''{'' # rest \<and> (\<forall>x \<in> set w. x \<in> white_space)\<close>
  proof (intro exI conjI)
    show \<open>'' {"name"'' = '' '' @ CHR ''{'' # ''"name"''\<close> by simp
    show "\<forall>x \<in> set '' ''. x \<in> white_space" by simp
  qed
  have name: \<open>\<exists>u v. '' {"name"'' = u @ ''"name"'' @ v\<close>
  proof (intro exI)
    show \<open>'' {"name"'' = '' {'' @ ''"name"'' @ []\<close> by simp
  qed
  have ends: \<open>(\<forall>x \<in> set '' ''. x \<in> white_space)
      \<and> ''{"name":"foo","arguments":{}}'' \<noteq> []
      \<and> hd ''{"name":"foo","arguments":{}}'' \<notin> white_space
      \<and> last ''{"name":"foo","arguments":{}}'' \<notin> white_space\<close>
    by simp
  from hallucinated_call_rescued
         [of parse_foo_call \<open>text_chunk '' {"name"''\<close> initial_streamState end_of_stream
             buffered_call \<open>'' ''\<close> \<open>''{"name":"foo","arguments":{}}''\<close> \<open>'' ''\<close>
             \<open>JObj [(''name'', JStr ''foo''), (''arguments'', JObj [])]\<close>]
       indented_fragment buffered_call_parses brace name ends
  show ?thesis by simp
qed

text \<open>
  A fragment with a brace and another quoted word is not withheld, and the whole call
  after white space is recovered.
\<close>

lemma other_json_chunks_flushed:
  \<open>all_parts (stream_loop parse initial_streamState other_json_chunks)
     = [text_part ''{"node":1}'']\<close>
  by code_simp

lemma indented_json_chunks_rescued:
  \<open>all_parts (stream_loop parse_foo_call initial_streamState indented_json_chunks)
     = [functionCall_part (JObj [(''name'', JStr ''foo''), (''args'', JObj [])])]\<close>
  by code_simp

text \<open>
  Fed the chunks \<^verbatim>\<open>{\<close>, then \<^verbatim>\<open>"name":"foo",\<close>, then \<^verbatim>\<open>"arguments":{}}\<close>, then the
  end of the stream, the generator never calls \<^verbatim>\<open>JSON.parse\<close>.
\<close>

lemma split_json_chunks_any_parser:
  \<open>all_parts (stream_loop parse initial_streamState split_json_chunks)
     = [text_part ''{'', text_part ''"name":"foo",'', text_part ''"arguments":{}}'']\<close>
  by code_simp

text \<open>
  C2, as the specification states it, fails: fed the chunks \<^verbatim>\<open>{\<close>, then
  \<^verbatim>\<open>"name":"foo",\<close>, then \<^verbatim>\<open>"arguments":{}}\<close>, then the end of the stream, the
  generator yields the three fragments as three text parts and no function call. The
  first fragment does not contain the quoted word name, so it is flushed and the
  accumulator is reset; no later accumulator begins with a brace.
\<close>

theorem split_json_chunks_flushed:
  \<open>all_parts (stream_loop parse_foo_call initial_streamState split_json_chunks)
     = [text_part ''{'', text_part ''"name":"foo",'', text_part ''"arguments":{}}'']
   \<and> length (text_parts_of
        (all_parts (stream_loop parse_foo_call initial_streamState split_json_chunks))) = 3
   \<and> functionCall_parts_of
        (all_parts (stream_loop parse_foo_call initial_streamState split_json_chunks)) = []\<close>
  by code_simp

end
